theory Spec2Isabelle
  imports Complex_Main
begin

section \<open>Numbers, vectors and matrices\<close>

text \<open>
  The element kernel computes with \<open>double\<close>. Every \<open>double\<close> is modelled by a
  \<^typ>\<open>real\<close>, and the functions below compute in exact arithmetic: the formulas are
  the source's, without the rounding. The shape functions and the volume are modelled a
  second time with every operation rounded to binary64 (section Binary64 arithmetic), for
  the statements that depend on the rounding.

  \<open>Eigen::Matrix<double, 3, 1>\<close> (\<open>VectorDim\<close>) is a triple,
  \<open>Eigen::Matrix<double, 3, 3>\<close> (\<open>MatrixDim\<close>) a triple of rows, and the dynamically
  sized \<open>Eigen::VectorXd\<close> and \<open>Eigen::MatrixXd\<close> are a list and a list of rows.
\<close>

type_synonym vector3 = "real \<times> real \<times> real"
type_synonym matrix3 = "vector3 \<times> vector3 \<times> vector3"
type_synonym vectorXd = "real list"
type_synonym matrixXd = "real list list"

text \<open>\<open>xi(j)\<close> for a fixed-size vector, and the vector with component \<open>j\<close> replaced.\<close>

fun coeff3 :: "vector3 \<Rightarrow> nat \<Rightarrow> real" where
  "coeff3 (x0, x1, x2) j = (if j = 0 then x0 else if j = 1 then x1 else x2)"

fun with_coeff3 :: "vector3 \<Rightarrow> nat \<Rightarrow> real \<Rightarrow> vector3" where
  "with_coeff3 (x0, x1, x2) j t =
     (if j = 0 then (t, x1, x2) else if j = 1 then (x0, t, x2) else (x0, x1, t))"

section \<open>8-node (trilinear) hexahedron\<close>

text \<open>\<open>HexahedronElement<3, 8>::shapefn\<close>; particle size and deformation gradient are
  received and not used.\<close>

fun shapefn8 :: "vector3 \<Rightarrow> vector3 \<Rightarrow> matrix3 \<Rightarrow> vectorXd" where
  "shapefn8 (xi0, xi1, xi2) particle_size deformation_gradient =
    [0.125 * (1 - xi0) * (1 - xi1) * (1 - xi2),
     0.125 * (1 + xi0) * (1 - xi1) * (1 - xi2),
     0.125 * (1 + xi0) * (1 + xi1) * (1 - xi2),
     0.125 * (1 - xi0) * (1 + xi1) * (1 - xi2),
     0.125 * (1 - xi0) * (1 - xi1) * (1 + xi2),
     0.125 * (1 + xi0) * (1 - xi1) * (1 + xi2),
     0.125 * (1 + xi0) * (1 + xi1) * (1 + xi2),
     0.125 * (1 - xi0) * (1 + xi1) * (1 + xi2)]"

text \<open>\<open>HexahedronElement<3, 8>::grad_shapefn\<close>: row \<open>i\<close> holds the three entries
  \<open>grad_shapefn(i, 0)\<close>, \<open>grad_shapefn(i, 1)\<close>, \<open>grad_shapefn(i, 2)\<close>.\<close>

fun grad_shapefn8 :: "vector3 \<Rightarrow> vector3 \<Rightarrow> matrix3 \<Rightarrow> matrixXd" where
  "grad_shapefn8 (xi0, xi1, xi2) particle_size deformation_gradient =
    [[- 0.125 * (1 - xi1) * (1 - xi2), - 0.125 * (1 - xi0) * (1 - xi2), - 0.125 * (1 - xi0) * (1 - xi1)],
     [0.125 * (1 - xi1) * (1 - xi2), - 0.125 * (1 + xi0) * (1 - xi2), - 0.125 * (1 + xi0) * (1 - xi1)],
     [0.125 * (1 + xi1) * (1 - xi2), 0.125 * (1 + xi0) * (1 - xi2), - 0.125 * (1 + xi0) * (1 + xi1)],
     [- 0.125 * (1 + xi1) * (1 - xi2), 0.125 * (1 - xi0) * (1 - xi2), - 0.125 * (1 - xi0) * (1 + xi1)],
     [- 0.125 * (1 - xi1) * (1 + xi2), - 0.125 * (1 - xi0) * (1 + xi2), 0.125 * (1 - xi0) * (1 - xi1)],
     [0.125 * (1 - xi1) * (1 + xi2), - 0.125 * (1 + xi0) * (1 + xi2), 0.125 * (1 + xi0) * (1 - xi1)],
     [0.125 * (1 + xi1) * (1 + xi2), 0.125 * (1 + xi0) * (1 + xi2), 0.125 * (1 + xi0) * (1 + xi1)],
     [- 0.125 * (1 + xi1) * (1 + xi2), 0.125 * (1 - xi0) * (1 + xi2), 0.125 * (1 - xi0) * (1 + xi1)]]"

text \<open>\<open>HexahedronElement<3, 8>::unit_cell_coordinates\<close>.\<close>

definition unit_cell_coordinates8 :: matrixXd where
  "unit_cell_coordinates8 =
    [[-1, -1, -1],
     [ 1, -1, -1],
     [ 1,  1, -1],
     [-1,  1, -1],
     [-1, -1,  1],
     [ 1, -1,  1],
     [ 1,  1,  1],
     [-1,  1,  1]]"

section \<open>20-node (serendipity) hexahedron\<close>

text \<open>\<open>HexahedronElement<3, 20>::shapefn\<close>. The source assigns the entries in the order
  0..7, 8, 11, 13, 9, 10, 12, 14, 15, 16, 18, 19, 17; the list holds them by index.\<close>

fun shapefn20 :: "vector3 \<Rightarrow> vector3 \<Rightarrow> matrix3 \<Rightarrow> vectorXd" where
  "shapefn20 (xi0, xi1, xi2) particle_size deformation_gradient =
    [- 0.125 * (1 - xi0) * (1 - xi1) * (1 - xi2) * (2 + xi0 + xi1 + xi2),
     - 0.125 * (1 + xi0) * (1 - xi1) * (1 - xi2) * (2 - xi0 + xi1 + xi2),
     - 0.125 * (1 + xi0) * (1 + xi1) * (1 - xi2) * (2 - xi0 - xi1 + xi2),
     - 0.125 * (1 - xi0) * (1 + xi1) * (1 - xi2) * (2 + xi0 - xi1 + xi2),
     - 0.125 * (1 - xi0) * (1 - xi1) * (1 + xi2) * (2 + xi0 + xi1 - xi2),
     - 0.125 * (1 + xi0) * (1 - xi1) * (1 + xi2) * (2 - xi0 + xi1 - xi2),
     - 0.125 * (1 + xi0) * (1 + xi1) * (1 + xi2) * (2 - xi0 - xi1 - xi2),
     - 0.125 * (1 - xi0) * (1 + xi1) * (1 + xi2) * (2 + xi0 - xi1 - xi2),
     0.25 * (1 - xi0 * xi0) * (1 - xi1) * (1 - xi2),
     0.25 * (1 - xi1 * xi1) * (1 - xi0) * (1 - xi2),
     0.25 * (1 - xi2 * xi2) * (1 - xi0) * (1 - xi1),
     0.25 * (1 - xi1 * xi1) * (1 + xi0) * (1 - xi2),
     0.25 * (1 - xi2 * xi2) * (1 + xi0) * (1 - xi1),
     0.25 * (1 - xi0 * xi0) * (1 + xi1) * (1 - xi2),
     0.25 * (1 - xi2 * xi2) * (1 + xi0) * (1 + xi1),
     0.25 * (1 - xi2 * xi2) * (1 - xi0) * (1 + xi1),
     0.25 * (1 - xi0 * xi0) * (1 - xi1) * (1 + xi2),
     0.25 * (1 - xi1 * xi1) * (1 - xi0) * (1 + xi2),
     0.25 * (1 - xi1 * xi1) * (1 + xi0) * (1 + xi2),
     0.25 * (1 - xi0 * xi0) * (1 + xi1) * (1 + xi2)]"

text \<open>\<open>HexahedronElement<3, 20>::grad_shapefn\<close>, row \<open>i\<close> holding
  \<open>grad_shapefn(i, 0)\<close>, \<open>grad_shapefn(i, 1)\<close>, \<open>grad_shapefn(i, 2)\<close> as the source
  writes them.\<close>

fun grad_shapefn20 :: "vector3 \<Rightarrow> vector3 \<Rightarrow> matrix3 \<Rightarrow> matrixXd" where
  "grad_shapefn20 (xi0, xi1, xi2) particle_size deformation_gradient =
    [[0.125 * (2 * xi0 + xi1 + xi2 + 1) * (1 - xi1) * (1 - xi2),
      0.125 * (xi0 + 2 * xi1 + xi2 + 1) * (1 - xi0) * (1 - xi2),
      0.125 * (xi0 + xi1 + 2 * xi2 + 1) * (1 - xi0) * (1 - xi1)],
     [- 0.125 * (- 2 * xi0 + xi1 + xi2 + 1) * (1 - xi1) * (1 - xi2),
      0.125 * (- xi0 + 2 * xi1 + xi2 + 1) * (1 + xi0) * (1 - xi2),
      0.125 * (- xi0 + xi1 + 2 * xi2 + 1) * (1 + xi0) * (1 - xi1)],
     [- 0.125 * (- 2 * xi0 - xi1 + xi2 + 1) * (1 + xi1) * (1 - xi2),
      - 0.125 * (- xi0 - 2 * xi1 + xi2 + 1) * (1 + xi0) * (1 - xi2),
      0.125 * (- xi0 - xi1 + 2 * xi2 + 1) * (1 + xi0) * (1 + xi1)],
     [0.125 * (2 * xi0 - xi1 + xi2 + 1) * (1 + xi1) * (1 - xi2),
      - 0.125 * (xi0 - 2 * xi1 + xi2 + 1) * (1 - xi1) * (1 - xi2),
      0.125 * (xi0 - xi1 + 2 * xi2 + 1) * (1 - xi1) * (1 + xi1)],
     [0.125 * (2 * xi0 + xi1 - xi2 + 1) * (1 - xi1) * (1 + xi2),
      0.125 * (xi0 + 2 * xi1 - xi2 + 1) * (1 - xi0) * (1 + xi2),
      - 0.125 * (xi0 + xi1 - 2 * xi2 + 1) * (1 - xi0) * (1 - xi1)],
     [- 0.125 * (- 2 * xi0 + xi1 - xi2 + 1) * (1 - xi1) * (1 + xi2),
      0.125 * (- xi0 + 2 * xi1 - xi2 + 1) * (1 + xi0) * (1 + xi2),
      - 0.125 * (- xi0 + xi1 - 2 * xi2 + 1) * (1 + xi0) * (1 - xi1)],
     [- 0.125 * (- 2 * xi0 - xi1 - xi2 + 1) * (1 + xi1) * (1 + xi2),
      - 0.125 * (- xi0 - 2 * xi1 - xi2 + 1) * (1 + xi0) * (1 + xi2),
      - 0.125 * (- xi0 - xi1 - 2 * xi2 + 1) * (1 + xi0) * (1 + xi1)],
     [0.125 * (2 * xi0 - xi1 - xi2 + 1) * (1 + xi1) * (1 + xi2),
      - 0.125 * (xi0 - 2 * xi1 - xi2 + 1) * (1 - xi1) * (1 + xi2),
      - 0.125 * (xi0 - xi1 - 2 * xi2 + 1) * (1 - xi1) * (1 + xi1)],
     [- 0.5 * xi0 * (1 - xi1) * (1 - xi2),
      - 0.25 * (1 - xi0 * xi0) * (1 - xi2),
      - 0.25 * (1 - xi0 * xi0) * (1 - xi1)],
     [- 0.25 * (1 - xi1 * xi1) * (1 - xi2),
      - 0.5 * xi1 * (1 - xi0) * (1 - xi2),
      - 0.25 * (1 - xi1 * xi1) * (1 - xi0)],
     [- 0.25 * (1 - xi2 * xi2) * (1 - xi1),
      - 0.25 * (1 - xi2 * xi2) * (1 - xi0),
      - 0.5 * xi2 * (1 - xi0) * (1 - xi1)],
     [0.25 * (1 - xi1 * xi1) * (1 - xi2),
      - 0.5 * xi1 * (1 + xi0) * (1 - xi2),
      - 0.25 * (1 - xi1 * xi1) * (1 + xi0)],
     [0.25 * (1 - xi2 * xi2) * (1 - xi1),
      - 0.25 * (1 - xi2 * xi2) * (1 + xi0),
      - 0.5 * xi2 * (1 + xi0) * (1 - xi1)],
     [- 0.5 * xi0 * (1 + xi1) * (1 - xi2),
      0.25 * (1 - xi0 * xi0) * (1 - xi2),
      - 0.25 * (1 - xi0 * xi0) * (1 + xi1)],
     [0.25 * (1 - xi2 * xi2) * (1 + xi1),
      0.25 * (1 - xi2 * xi2) * (1 + xi0),
      - 0.5 * xi2 * (1 + xi0) * (1 + xi1)],
     [- 0.25 * (1 - xi2 * xi2) * (1 + xi1),
      0.25 * (1 - xi2 * xi2) * (1 - xi0),
      - 0.5 * xi2 * (1 - xi0) * (1 + xi1)],
     [- 0.5 * xi0 * (1 - xi1) * (1 + xi2),
      - 0.25 * (1 - xi0 * xi0) * (1 + xi2),
      0.25 * (1 - xi0 * xi0) * (1 - xi1)],
     [- 0.25 * (1 - xi1 * xi1) * (1 + xi2),
      - 0.5 * xi1 * (1 - xi0) * (1 + xi2),
      0.25 * (1 - xi1 * xi1) * (1 - xi0)],
     [0.25 * (1 - xi1 * xi1) * (1 + xi2),
      - 0.5 * xi1 * (1 + xi0) * (1 + xi2),
      0.25 * (1 - xi1 * xi1) * (1 + xi0)],
     [- 0.5 * xi0 * (1 + xi1) * (1 + xi2),
      0.25 * (1 - xi0 * xi0) * (1 + xi2),
      0.25 * (1 - xi0 * xi0) * (1 + xi1)]]"

text \<open>\<open>HexahedronElement<3, 20>::unit_cell_coordinates\<close>.\<close>

definition unit_cell_coordinates20 :: matrixXd where
  "unit_cell_coordinates20 =
    [[-1, -1, -1],
     [ 1, -1, -1],
     [ 1,  1, -1],
     [-1,  1, -1],
     [-1, -1,  1],
     [ 1, -1,  1],
     [ 1,  1,  1],
     [-1,  1,  1],
     [ 0, -1, -1],
     [-1,  0, -1],
     [-1, -1,  0],
     [ 1,  0, -1],
     [ 1, -1,  0],
     [ 0,  1, -1],
     [ 1,  1,  0],
     [-1,  1,  0],
     [ 0, -1,  1],
     [-1,  0,  1],
     [ 1,  0,  1],
     [ 0,  1,  1]]"

section \<open>The class template \<open>HexahedronElement<3, Tnfunctions>\<close>\<close>

text \<open>The constructor's \<open>static_assert\<close> admits \<open>Tnfunctions = 8\<close> and
  \<open>Tnfunctions = 20\<close> only.\<close>

datatype hexahedron = Hex8 | Hex20

fun nfunctions :: "hexahedron \<Rightarrow> nat" where
  "nfunctions Hex8 = 8"
| "nfunctions Hex20 = 20"

fun shapefn :: "hexahedron \<Rightarrow> vector3 \<Rightarrow> vector3 \<Rightarrow> matrix3 \<Rightarrow> vectorXd" where
  "shapefn Hex8 xi particle_size deformation_gradient =
     shapefn8 xi particle_size deformation_gradient"
| "shapefn Hex20 xi particle_size deformation_gradient =
     shapefn20 xi particle_size deformation_gradient"

fun grad_shapefn :: "hexahedron \<Rightarrow> vector3 \<Rightarrow> vector3 \<Rightarrow> matrix3 \<Rightarrow> matrixXd" where
  "grad_shapefn Hex8 xi particle_size deformation_gradient =
     grad_shapefn8 xi particle_size deformation_gradient"
| "grad_shapefn Hex20 xi particle_size deformation_gradient =
     grad_shapefn20 xi particle_size deformation_gradient"

fun unit_cell_coordinates :: "hexahedron \<Rightarrow> matrixXd" where
  "unit_cell_coordinates Hex8 = unit_cell_coordinates8"
| "unit_cell_coordinates Hex20 = unit_cell_coordinates20"


section \<open>Failures and the log\<close>

text \<open>
  What the source can do besides returning: Eigen checks operand sizes and indices with
  assertions (the program aborts there, and with the assertions compiled out the behaviour
  is undefined), and the inverse of a matrix with determinant zero holds infinities and
  NaN, which no \<^typ>\<open>real\<close> stands for.
\<close>

datatype error = Size_mismatch | Index_out_of_range | Singular | Assertion_failed

text \<open>\<open>console_->error("{} #{}: {}\n", __FILE__, __LINE__, exception.what())\<close> appends
  one line to the log; the model keeps the exception it reports. The text of
  \<open>std::out_of_range::what()\<close> is the standard library's.\<close>

datatype exn = Runtime_error string | Out_of_range

type_synonym log = "exn list"

section \<open>Dense linear algebra\<close>

definition rows :: "matrixXd \<Rightarrow> nat" where
  "rows m = length m"

definition cols :: "matrixXd \<Rightarrow> nat" where
  "cols m = (case m of [] \<Rightarrow> 0 | r # _ \<Rightarrow> length r)"

definition col :: "matrixXd \<Rightarrow> nat \<Rightarrow> vectorXd" where
  "col m j = map (\<lambda>r. r ! j) m"

definition dot :: "vectorXd \<Rightarrow> vectorXd \<Rightarrow> real" where
  "dot u v = sum_list (map2 (*) u v)"

definition zero3 :: matrix3 where
  "zero3 = ((0, 0, 0), (0, 0, 0), (0, 0, 0))"

definition zeros :: vector3 where
  "zeros = (0, 0, 0)"

definition zero_matrixXd :: "nat \<Rightarrow> nat \<Rightarrow> matrixXd" where
  "zero_matrixXd r c = replicate r (replicate c 0)"

text \<open>\<open>grad_sf.transpose() * nodal_coordinates\<close> stored into a
  \<open>Matrix<double, 3, 3>\<close>: entry \<open>(i, j)\<close> is the sum over the nodes \<open>n\<close> of
  \<open>grad_sf(n, i) * nodal_coordinates(n, j)\<close>.\<close>

definition transpose_times_raw :: "matrixXd \<Rightarrow> matrixXd \<Rightarrow> matrix3" where
  "transpose_times_raw g nc =
    ((dot (col g 0) (col nc 0), dot (col g 0) (col nc 1), dot (col g 0) (col nc 2)),
     (dot (col g 1) (col nc 0), dot (col g 1) (col nc 1), dot (col g 1) (col nc 2)),
     (dot (col g 2) (col nc 0), dot (col g 2) (col nc 1), dot (col g 2) (col nc 2)))"

text \<open>The same product where the source does not check the sizes before it: Eigen's
  assertions want the inner sizes equal and the result 3 by 3.\<close>

definition transpose_times :: "matrixXd \<Rightarrow> matrixXd \<Rightarrow> error + matrix3" where
  "transpose_times g nc =
    (if rows g = rows nc \<and> cols g = 3 \<and> cols nc = 3
     then Inr (transpose_times_raw g nc) else Inl Size_mismatch)"

fun det3 :: "matrix3 \<Rightarrow> real" where
  "det3 ((a, b, c), (d, e, f), (g, h, i)) =
     a * (e * i - f * h) - b * (d * i - f * g) + c * (d * h - e * g)"

text \<open>\<open>jacobian.inverse()\<close> of a fixed 3 by 3 matrix: the cofactors over the
  determinant.\<close>

fun inverse3 :: "matrix3 \<Rightarrow> error + matrix3" where
  "inverse3 ((a, b, c), (d, e, f), (g, h, i)) =
    (let dt = det3 ((a, b, c), (d, e, f), (g, h, i)) in
     if dt = 0 then Inl Singular
     else Inr (((e * i - f * h) / dt, (c * h - b * i) / dt, (b * f - c * e) / dt),
               ((f * g - d * i) / dt, (a * i - c * g) / dt, (c * d - a * f) / dt),
               ((d * h - e * g) / dt, (b * g - a * h) / dt, (a * e - b * d) / dt)))"

fun transpose3 :: "matrix3 \<Rightarrow> matrix3" where
  "transpose3 ((a, b, c), (d, e, f), (g, h, i)) = ((a, d, g), (b, e, h), (c, f, i))"

text \<open>\<open>grad_sf * m\<close> for the node-by-3 matrix \<open>grad_sf\<close> and a 3 by 3 matrix.\<close>

fun times3 :: "matrixXd \<Rightarrow> matrix3 \<Rightarrow> matrixXd" where
  "times3 gs ((a, b, c), (d, e, f), (g, h, i)) =
     map (\<lambda>r. [dot r [a, d, g], dot r [b, e, h], dot r [c, f, i]]) gs"

text \<open>\<open>m * m.transpose()\<close> and the entrywise sum.\<close>

definition times_own_transpose :: "matrixXd \<Rightarrow> matrixXd" where
  "times_own_transpose m = map (\<lambda>r. map (dot r) m) m"

definition plusXd :: "matrixXd \<Rightarrow> matrixXd \<Rightarrow> matrixXd" where
  "plusXd a b = map2 (map2 (+)) a b"

section \<open>Jacobian, physical gradients, B matrix, Laplace matrix\<close>

text \<open>\<open>HexahedronElement::jacobian\<close>. \<open>xi.size()\<close> is 3. The returned pair is what
  was logged and the matrix returned.\<close>

definition jacobian ::
  "hexahedron \<Rightarrow> vector3 \<Rightarrow> matrixXd \<Rightarrow> vector3 \<Rightarrow> matrix3 \<Rightarrow> log \<times> matrix3" where
  "jacobian k xi nodal_coordinates particle_size deformation_gradient =
    (let grad_sf = grad_shapefn k xi particle_size deformation_gradient in
     if rows grad_sf \<noteq> rows nodal_coordinates \<or> 3 \<noteq> cols nodal_coordinates
     then ([Runtime_error
              ''Jacobian calculation: Incorrect dimension of xi and nodal_coordinates''],
           zero3)
     else ([], transpose_times_raw grad_sf nodal_coordinates))"

text \<open>\<open>HexahedronElement::jacobian_local\<close>.\<close>

definition jacobian_local ::
  "hexahedron \<Rightarrow> vector3 \<Rightarrow> matrixXd \<Rightarrow> vector3 \<Rightarrow> matrix3 \<Rightarrow> log \<times> matrix3" where
  "jacobian_local k xi nodal_coordinates particle_size deformation_gradient =
     jacobian k xi nodal_coordinates particle_size deformation_gradient"

text \<open>\<open>HexahedronElement::dn_dx\<close>: no check of the sizes, no log.\<close>

definition dn_dx ::
  "hexahedron \<Rightarrow> vector3 \<Rightarrow> matrixXd \<Rightarrow> vector3 \<Rightarrow> matrix3 \<Rightarrow> error + matrixXd" where
  "dn_dx k xi nodal_coordinates particle_size deformation_gradient =
    (let grad_sf = grad_shapefn k xi particle_size deformation_gradient in
     case transpose_times grad_sf nodal_coordinates of
       Inl e \<Rightarrow> Inl e
     | Inr jac \<Rightarrow>
         (case inverse3 jac of
            Inl e \<Rightarrow> Inl e
          | Inr jinv \<Rightarrow> Inr (times3 grad_sf (transpose3 jinv))))"

text \<open>The 6 by 3 block \<open>bi\<close> of one node, from the row of physical gradients.\<close>

definition bblock :: "vectorXd \<Rightarrow> matrixXd" where
  "bblock g =
    [[g ! 0, 0, 0],
     [0, g ! 1, 0],
     [0, 0, g ! 2],
     [g ! 1, g ! 0, 0],
     [0, g ! 2, g ! 1],
     [g ! 2, 0, g ! 0]]"

text \<open>\<open>HexahedronElement::bmatrix\<close>. \<open>xi.rows()\<close> is 3.\<close>

definition bmatrix ::
  "hexahedron \<Rightarrow> vector3 \<Rightarrow> matrixXd \<Rightarrow> vector3 \<Rightarrow> matrix3 \<Rightarrow> log \<times> (error + matrixXd list)"
  where
  "bmatrix k xi nodal_coordinates particle_size deformation_gradient =
    (let grad_sf = grad_shapefn k xi particle_size deformation_gradient in
     if rows grad_sf \<noteq> rows nodal_coordinates \<or> 3 \<noteq> cols nodal_coordinates
     then ([Runtime_error
              ''BMatrix - Jacobian calculation: Incorrect dimension of xi and nodal_coordinates''],
           Inr [])
     else ([],
           case inverse3 (transpose_times_raw grad_sf nodal_coordinates) of
             Inl e \<Rightarrow> Inl e
           | Inr jinv \<Rightarrow> Inr (map bblock (take (nfunctions k) (times3 grad_sf (transpose3 jinv))))))"

text \<open>The check at the head of \<open>HexahedronElement::laplace_matrix\<close>: what its
  \<open>catch\<close> block logs. The disjunction is short-circuited, so \<open>xi_s.at(0)\<close> is reached
  only when the row counts agree, and throws \<open>std::out_of_range\<close> on an empty \<open>xi_s\<close>.
  The \<open>catch\<close> block holds no \<open>return\<close>.\<close>

definition laplace_check :: "hexahedron \<Rightarrow> vector3 list \<Rightarrow> matrixXd \<Rightarrow> log" where
  "laplace_check k xi_s nodal_coordinates =
    (if nfunctions k \<noteq> rows nodal_coordinates
     then [Runtime_error ''Jacobian calculation: Incorrect dimension of xi & nodes'']
     else (case xi_s of
             [] \<Rightarrow> [Out_of_range]
           | xi # _ \<Rightarrow>
               if 3 \<noteq> cols nodal_coordinates
               then [Runtime_error ''Jacobian calculation: Incorrect dimension of xi & nodes'']
               else []))"

text \<open>One turn of the loop over \<open>xi_s\<close> (here the inverse is not transposed).\<close>

definition laplace_step ::
  "hexahedron \<Rightarrow> matrixXd \<Rightarrow> vector3 \<Rightarrow> error + matrixXd \<Rightarrow> error + matrixXd" where
  "laplace_step k nodal_coordinates xi acc =
    (case acc of
       Inl e \<Rightarrow> Inl e
     | Inr laplace \<Rightarrow>
         (let grad_sf = grad_shapefn k xi zeros zero3 in
          case transpose_times grad_sf nodal_coordinates of
            Inl e \<Rightarrow> Inl e
          | Inr jac \<Rightarrow>
              (case inverse3 jac of
                 Inl e \<Rightarrow> Inl e
               | Inr jinv \<Rightarrow>
                   Inr (plusXd laplace (times_own_transpose (times3 grad_sf jinv))))))"

definition laplace_matrix ::
  "hexahedron \<Rightarrow> vector3 list \<Rightarrow> matrixXd \<Rightarrow> log \<times> (error + matrixXd)" where
  "laplace_matrix k xi_s nodal_coordinates =
    (laplace_check k xi_s nodal_coordinates,
     fold (laplace_step k nodal_coordinates) xi_s
       (Inr (zero_matrixXd (nfunctions k) (nfunctions k))))"

section \<open>Volume\<close>

fun minus3 :: "vector3 \<Rightarrow> vector3 \<Rightarrow> vector3" where
  "minus3 (a0, a1, a2) (b0, b1, b2) = (a0 - b0, a1 - b1, a2 - b2)"

fun plus3 :: "vector3 \<Rightarrow> vector3 \<Rightarrow> vector3" where
  "plus3 (a0, a1, a2) (b0, b1, b2) = (a0 + b0, a1 + b1, a2 + b2)"

fun dot3 :: "vector3 \<Rightarrow> vector3 \<Rightarrow> real" where
  "dot3 (a0, a1, a2) (b0, b1, b2) = a0 * b0 + a1 * b1 + a2 * b2"

fun cross :: "vector3 \<Rightarrow> vector3 \<Rightarrow> vector3" where
  "cross (a0, a1, a2) (b0, b1, b2) =
     (a1 * b2 - a2 * b1, a2 * b0 - a0 * b2, a0 * b1 - a1 * b0)"

text \<open>\<open>nodal_coordinates.row(n)\<close> stored into a \<open>Matrix<double, 3, 1>\<close>.\<close>

definition row3 :: "matrixXd \<Rightarrow> nat \<Rightarrow> vector3" where
  "row3 m n = (m ! n ! 0, m ! n ! 1, m ! n ! 2)"

text \<open>\<open>HexahedronElement::compute_volume\<close>, the same code for both node counts. It reads
  the rows 0 to 7, each of three entries.\<close>

definition compute_volume :: "matrixXd \<Rightarrow> error + real" where
  "compute_volume nodal_coordinates =
    (if rows nodal_coordinates < 8 then Inl Index_out_of_range
     else if cols nodal_coordinates \<noteq> 3 then Inl Size_mismatch
     else
       (let a = row3 nodal_coordinates 7;
            b = row3 nodal_coordinates 6;
            c = row3 nodal_coordinates 2;
            d = row3 nodal_coordinates 3;
            e = row3 nodal_coordinates 4;
            f = row3 nodal_coordinates 5;
            g = row3 nodal_coordinates 1;
            h = row3 nodal_coordinates 0
        in Inr
          ((1 / 12) * dot3 (minus3 a g)
              (plus3 (plus3 (cross (minus3 b d) (minus3 c a)) (cross (minus3 e b) (minus3 f a)))
                 (cross (minus3 d e) (minus3 h a))) +
           (1 / 12) * dot3 (minus3 b g)
              (plus3 (cross (minus3 b d) (minus3 c a)) (cross (minus3 c g) (minus3 c f))) +
           (1 / 12) * dot3 (minus3 e g)
              (plus3 (cross (minus3 e b) (minus3 f a)) (cross (minus3 f g) (minus3 h f))) +
           (1 / 12) * dot3 (minus3 d g)
              (plus3 (cross (minus3 d e) (minus3 h a)) (cross (minus3 h g) (minus3 h c))))))"


section \<open>B-spline hexahedron element\<close>

text \<open>
  The state of a \<open>HexahedronBSplineElement<3, Tpolynomial>\<close> that the functions below
  read. The class declaration (\<open>hexahedron_bspline_element.h\<close>) is not part of the
  sources modelled here, so what it alone fixes is a parameter of the model: the knot vector \<open>knot(node_type)\<close> of a node type, and the
  default of the last argument \<open>index\<close> of \<open>kernel\<close> and \<open>gradient\<close>, which
  \<open>shapefn\<close> and \<open>grad_shapefn\<close> leave out. \<open>Tpolynomial\<close> is a parameter too.
  The fields are the members \<open>nconnectivity_\<close>, \<open>nodal_coordinates_\<close>,
  \<open>node_type_\<close> and \<open>spacing_length_\<close>.
\<close>

record bspline_element =
  nconnectivity :: nat
  nodal_coordinates :: matrixXd
  node_type :: "nat list list"
  spacing_length :: real

text \<open>\<open>initialise_bspline_connectivity_properties\<close>: reads the entries \<open>(0, 0)\<close> and
  \<open>(1, 0)\<close> of the coordinates.\<close>

definition initialise_bspline_connectivity_properties ::
  "bspline_element \<Rightarrow> matrixXd \<Rightarrow> nat list list \<Rightarrow> error + bspline_element" where
  "initialise_bspline_connectivity_properties el nodal_coords nodal_properties =
    (if rows nodal_coords \<noteq> length nodal_properties then Inl Assertion_failed
     else if rows nodal_coords < 2 \<or> cols nodal_coords < 1 then Inl Index_out_of_range
     else Inr (el\<lparr>nconnectivity := rows nodal_coords,
                  nodal_coordinates := nodal_coords,
                  node_type := nodal_properties,
                  spacing_length := \<bar>nodal_coords ! 1 ! 0 - nodal_coords ! 0 ! 0\<bar>\<rparr>))"

text \<open>\<open>std::numeric_limits<double>::epsilon()\<close>.\<close>

definition epsilon :: real where
  "epsilon = 1 / 2 ^ 52"

text \<open>\<open>nodal_coord * one + spacing_length_ * knot_vector\<close>.\<close>

definition knot_coords :: "(nat \<Rightarrow> real list) \<Rightarrow> real \<Rightarrow> real \<Rightarrow> nat \<Rightarrow> real list" where
  "knot_coords knot h nodal_coord ntype = map (\<lambda>k. nodal_coord + h * k) (knot ntype)"

text \<open>\<open>HexahedronBSplineElement::kernel\<close>, the Cox-de Boor recursion on the polynomial
  order. At order 0 the conjunction \<open>point_coord >= knot_coord[index] && point_coord <
  knot_coord[index + 1]\<close> is short-circuited: \<open>knot_coord[index + 1]\<close> is read only when
  the first comparison holds. Above order 0 the quotients \<open>a\<close> and \<open>b\<close> are computed and
  then replaced by 0 where the denominator is below epsilon.\<close>

fun kernel ::
  "(nat \<Rightarrow> real list) \<Rightarrow> real \<Rightarrow> real \<Rightarrow> real \<Rightarrow> nat \<Rightarrow> nat \<Rightarrow> nat \<Rightarrow> error + real" where
  "kernel knot h point_coord nodal_coord ntype 0 index =
    (let knot_coord = knot_coords knot h nodal_coord ntype in
     if index < length knot_coord
     then
       (if knot_coord ! index \<le> point_coord
        then
          (if index + 1 < length knot_coord
           then Inr (if point_coord < knot_coord ! (index + 1) then 1 else 0)
           else Inl Index_out_of_range)
        else Inr 0)
     else Inl Index_out_of_range)"
| "kernel knot h point_coord nodal_coord ntype (Suc p) index =
    (let knot_coord = knot_coords knot h nodal_coord ntype;
         poly_order = Suc p in
     if index + poly_order + 1 < length knot_coord
     then
       (let den_a = knot_coord ! (index + poly_order) - knot_coord ! index;
            a = (if den_a < epsilon then 0 else (point_coord - knot_coord ! index) / den_a);
            den_b = knot_coord ! (index + poly_order + 1) - knot_coord ! (index + 1);
            b = (if den_b < epsilon then 0
                 else (knot_coord ! (index + poly_order + 1) - point_coord) / den_b)
        in case kernel knot h point_coord nodal_coord ntype p index of
             Inl e \<Rightarrow> Inl e
           | Inr ka \<Rightarrow>
               (case kernel knot h point_coord nodal_coord ntype p (index + 1) of
                  Inl e \<Rightarrow> Inl e
                | Inr kb \<Rightarrow> Inr (a * ka + b * kb)))
     else Inl Index_out_of_range)"

text \<open>\<open>HexahedronBSplineElement::gradient\<close>. \<open>poly_order - 1\<close> is unsigned 32-bit
  arithmetic: at order 0 it wraps around.\<close>

definition gradient ::
  "(nat \<Rightarrow> real list) \<Rightarrow> real \<Rightarrow> real \<Rightarrow> real \<Rightarrow> nat \<Rightarrow> nat \<Rightarrow> nat \<Rightarrow> error + real" where
  "gradient knot h point_coord nodal_coord ntype poly_order index =
    (let knot_coord = knot_coords knot h nodal_coord ntype in
     if index + poly_order + 1 < length knot_coord
     then
       (let den_a = knot_coord ! (index + poly_order) - knot_coord ! index;
            a = (if den_a < epsilon then 0 else real poly_order / den_a);
            den_b = knot_coord ! (index + poly_order + 1) - knot_coord ! (index + 1);
            b = (if den_b < epsilon then 0 else real poly_order / den_b);
            lower = (if poly_order = 0 then 2 ^ 32 - 1 else poly_order - 1)
        in case kernel knot h point_coord nodal_coord ntype lower index of
             Inl e \<Rightarrow> Inl e
           | Inr ka \<Rightarrow>
               (case kernel knot h point_coord nodal_coord ntype lower (index + 1) of
                  Inl e \<Rightarrow> Inl e
                | Inr kb \<Rightarrow> Inr (a * ka - b * kb)))
     else Inl Index_out_of_range)"

text \<open>The value \<open>N\<close> (for \<open>kernel\<close>) or \<open>dN_dx\<close> (for \<open>gradient\<close>) of node \<open>n\<close> along
  axis \<open>i\<close>: the basis function of the node's type, and for the node types 1 and 4 the
  term of type 5 and 6 added to it.\<close>

definition with_boundary_term ::
  "(nat \<Rightarrow> error + real) \<Rightarrow> bspline_element \<Rightarrow> nat \<Rightarrow> nat \<Rightarrow> error + real" where
  "with_boundary_term basis el n i =
    (if n < length (node_type el) \<and> i < length (node_type el ! n)
     then
       (let t = node_type el ! n ! i in
        case basis t of
          Inl e \<Rightarrow> Inl e
        | Inr v \<Rightarrow>
            if t = 1 then (case basis 5 of Inl e \<Rightarrow> Inl e | Inr w \<Rightarrow> Inr (v + w))
            else if t = 4 then (case basis 6 of Inl e \<Rightarrow> Inl e | Inr w \<Rightarrow> Inr (v + w))
            else Inr v)
     else Inl Index_out_of_range)"

definition node_kernel ::
  "(nat \<Rightarrow> real list) \<Rightarrow> nat \<Rightarrow> nat \<Rightarrow> bspline_element \<Rightarrow> vector3 \<Rightarrow> nat \<Rightarrow> nat \<Rightarrow> error + real"
  where
  "node_kernel knot index0 tpolynomial el pcoord n i =
    (if n < rows (nodal_coordinates el) \<and> i < length (nodal_coordinates el ! n)
     then with_boundary_term
            (\<lambda>t. kernel knot (spacing_length el) (coeff3 pcoord i)
                   (nodal_coordinates el ! n ! i) t tpolynomial index0) el n i
     else Inl Index_out_of_range)"

definition node_gradient ::
  "(nat \<Rightarrow> real list) \<Rightarrow> nat \<Rightarrow> nat \<Rightarrow> bspline_element \<Rightarrow> vector3 \<Rightarrow> nat \<Rightarrow> nat \<Rightarrow> error + real"
  where
  "node_gradient knot index0 tpolynomial el pcoord n i =
    (if n < rows (nodal_coordinates el) \<and> i < length (nodal_coordinates el ! n)
     then with_boundary_term
            (\<lambda>t. gradient knot (spacing_length el) (coeff3 pcoord i)
                   (nodal_coordinates el ! n ! i) t tpolynomial index0) el n i
     else Inl Index_out_of_range)"

text \<open>\<open>HexahedronBSplineElement::shapefn_local\<close>.\<close>

definition shapefn_local_bspline ::
  "nat \<Rightarrow> bspline_element \<Rightarrow> vector3 \<Rightarrow> vector3 \<Rightarrow> matrix3 \<Rightarrow> vectorXd" where
  "shapefn_local_bspline tpolynomial el xi particle_size deformation_gradient =
     shapefn8 xi particle_size deformation_gradient"

text \<open>The real coordinates \<open>pcoord\<close> of the point: the sum over the entries \<open>i\<close> of the
  local shape functions of \<open>local_shapefn(i) * nodal_coordinates_.row(i)\<close>.\<close>

definition pcoord_of ::
  "nat \<Rightarrow> bspline_element \<Rightarrow> vector3 \<Rightarrow> vector3 \<Rightarrow> matrix3 \<Rightarrow> error + vector3" where
  "pcoord_of tpolynomial el xi particle_size deformation_gradient =
    (let local_shapefn = shapefn_local_bspline tpolynomial el xi particle_size deformation_gradient;
         nc = take (length local_shapefn) (nodal_coordinates el) in
     if rows (nodal_coordinates el) < length local_shapefn then Inl Index_out_of_range
     else if cols (nodal_coordinates el) \<noteq> 3 then Inl Size_mismatch
     else Inr (dot local_shapefn (col nc 0), dot local_shapefn (col nc 1),
               dot local_shapefn (col nc 2)))"

fun sequence :: "(error + 'a) list \<Rightarrow> error + 'a list" where
  "sequence [] = Inr []"
| "sequence (x # xs) =
    (case x of
       Inl e \<Rightarrow> Inl e
     | Inr v \<Rightarrow> (case sequence xs of Inl e \<Rightarrow> Inl e | Inr vs \<Rightarrow> Inr (v # vs)))"

text \<open>\<open>HexahedronBSplineElement::shapefn\<close>: with exactly 8 connected nodes the linear
  hexahedron's functions, else the product over the axes of the nodes' basis functions,
  starting from the constant 1.\<close>

definition shapefn_bspline ::
  "(nat \<Rightarrow> real list) \<Rightarrow> nat \<Rightarrow> nat \<Rightarrow> bspline_element \<Rightarrow> vector3 \<Rightarrow> vector3 \<Rightarrow> matrix3 \<Rightarrow>
     error + vectorXd" where
  "shapefn_bspline knot index0 tpolynomial el xi particle_size deformation_gradient =
    (if nconnectivity el = 8 then Inr (shapefn8 xi particle_size deformation_gradient)
     else
       (case pcoord_of tpolynomial el xi particle_size deformation_gradient of
          Inl e \<Rightarrow> Inl e
        | Inr pcoord \<Rightarrow>
            sequence
              (map (\<lambda>n. case sequence (map (node_kernel knot index0 tpolynomial el pcoord n)
                                         [0, 1, 2]) of
                           Inl e \<Rightarrow> Inl e
                         | Inr ns \<Rightarrow> Inr (fold (\<lambda>N s. s * N) ns 1))
                 [0 ..< nconnectivity el])))"

text \<open>One entry \<open>grad_shapefn(n, i)\<close>: the gradient along axis \<open>i\<close> times the basis
  functions along the other axes \<open>j\<close>, in increasing \<open>j\<close>.\<close>

definition grad_entry ::
  "(nat \<Rightarrow> real list) \<Rightarrow> nat \<Rightarrow> nat \<Rightarrow> bspline_element \<Rightarrow> vector3 \<Rightarrow> nat \<Rightarrow> nat \<Rightarrow> error + real"
  where
  "grad_entry knot index0 tpolynomial el pcoord n i =
    (case node_gradient knot index0 tpolynomial el pcoord n i of
       Inl e \<Rightarrow> Inl e
     | Inr dN_dx \<Rightarrow>
         (case sequence (map (node_kernel knot index0 tpolynomial el pcoord n)
                           (filter (\<lambda>j. j \<noteq> i) [0, 1, 2])) of
            Inl e \<Rightarrow> Inl e
          | Inr ns \<Rightarrow> Inr (fold (\<lambda>N d. d * N) ns dN_dx)))"

text \<open>\<open>HexahedronBSplineElement::grad_shapefn\<close>.\<close>

definition grad_shapefn_bspline ::
  "(nat \<Rightarrow> real list) \<Rightarrow> nat \<Rightarrow> nat \<Rightarrow> bspline_element \<Rightarrow> vector3 \<Rightarrow> vector3 \<Rightarrow> matrix3 \<Rightarrow>
     error + matrixXd" where
  "grad_shapefn_bspline knot index0 tpolynomial el xi particle_size deformation_gradient =
    (if nconnectivity el = 8 then Inr (grad_shapefn8 xi particle_size deformation_gradient)
     else
       (case pcoord_of tpolynomial el xi particle_size deformation_gradient of
          Inl e \<Rightarrow> Inl e
        | Inr pcoord \<Rightarrow>
            sequence
              (map (\<lambda>n. sequence (map (grad_entry knot index0 tpolynomial el pcoord n) [0, 1, 2]))
                 [0 ..< nconnectivity el])))"

text \<open>The check that \<open>jacobian\<close> and \<open>bmatrix\<close> of the B-spline element start with:
  \<open>(grad_sf.rows() != nodal_coordinates.rows()) || (xi.rows() != nodal_coordinates.cols())\<close>,
  with 3 rows in \<open>xi\<close>.\<close>

definition incorrect_dimension :: "matrixXd \<Rightarrow> matrixXd \<Rightarrow> bool" where
  "incorrect_dimension grad_sf nodal_coords =
     (rows grad_sf \<noteq> rows nodal_coords \<or> 3 \<noteq> cols nodal_coords)"

text \<open>\<open>HexahedronBSplineElement::jacobian\<close>: the check and the product of the standard
  element, on the B-spline gradients.\<close>

definition jacobian_bspline ::
  "(nat \<Rightarrow> real list) \<Rightarrow> nat \<Rightarrow> nat \<Rightarrow> bspline_element \<Rightarrow> vector3 \<Rightarrow> matrixXd \<Rightarrow> vector3 \<Rightarrow>
     matrix3 \<Rightarrow> error + log \<times> matrix3" where
  "jacobian_bspline knot index0 tpolynomial el xi nodal_coords particle_size deformation_gradient =
    (case grad_shapefn_bspline knot index0 tpolynomial el xi particle_size deformation_gradient of
       Inl e \<Rightarrow> Inl e
     | Inr grad_sf \<Rightarrow>
         Inr (if incorrect_dimension grad_sf nodal_coords
              then ([Runtime_error
                       ''Jacobian calculation: Incorrect dimension of xi and nodal_coordinates''],
                    zero3)
              else ([], transpose_times_raw grad_sf nodal_coords)))"

text \<open>\<open>HexahedronBSplineElement::dn_dx\<close>: the gradients as \<open>grad_shapefn\<close> returns them;
  the nodal coordinates passed in are not read.\<close>

definition dn_dx_bspline ::
  "(nat \<Rightarrow> real list) \<Rightarrow> nat \<Rightarrow> nat \<Rightarrow> bspline_element \<Rightarrow> vector3 \<Rightarrow> matrixXd \<Rightarrow> vector3 \<Rightarrow>
     matrix3 \<Rightarrow> error + matrixXd" where
  "dn_dx_bspline knot index0 tpolynomial el xi nodal_coords particle_size deformation_gradient =
     grad_shapefn_bspline knot index0 tpolynomial el xi particle_size deformation_gradient"

text \<open>\<open>HexahedronBSplineElement::bmatrix\<close>: after the check, the Jacobian of the
  gradients and the nodal coordinates, the gradients times its transposed inverse, and one
  block for each of the \<open>nconnectivity_\<close> nodes.\<close>

definition bmatrix_bspline ::
  "(nat \<Rightarrow> real list) \<Rightarrow> nat \<Rightarrow> nat \<Rightarrow> bspline_element \<Rightarrow> vector3 \<Rightarrow> matrixXd \<Rightarrow> vector3 \<Rightarrow>
     matrix3 \<Rightarrow> error + log \<times> matrixXd list" where
  "bmatrix_bspline knot index0 tpolynomial el xi nodal_coords particle_size deformation_gradient =
    (case grad_shapefn_bspline knot index0 tpolynomial el xi particle_size deformation_gradient of
       Inl e \<Rightarrow> Inl e
     | Inr grad_sf \<Rightarrow>
         if incorrect_dimension grad_sf nodal_coords
         then Inr ([Runtime_error
                      ''BMatrix - Jacobian calculation: Incorrect dimension of xi and nodal_coordinates''],
                   [])
         else
           (case inverse3 (transpose_times_raw grad_sf nodal_coords) of
              Inl e \<Rightarrow> Inl e
            | Inr jinv \<Rightarrow>
                Inr ([], map bblock (take (nconnectivity el)
                                       (times3 grad_sf (transpose3 jinv))))))"

section \<open>The persisted particle record\<close>

text \<open>The type identifiers that \<open>field_type\<close> names, and the value 0 that an array
  element without an initialiser holds.\<close>

datatype hid_t =
  H5T_NATIVE_LLONG | H5T_NATIVE_DOUBLE | H5T_NATIVE_HBOOL | H5T_NATIVE_UINT | Zero_initialised

text \<open>Modelled from the spec: \<open>NFIELDS\<close>, the length of the tables, is defined in
  \<open>hdf5_particle.h\<close>, which is not part of the sources modelled here; the record of the spec has
  56 fields, and the tables \<open>dst_offset\<close>, \<open>dst_sizes\<close> and \<open>field_names\<close> each list
  56 initialisers.\<close>

definition NFIELDS :: nat where
  "NFIELDS = 56"

text \<open>\<open>field_names\<close>.\<close>

definition field_names :: "string list" where
  "field_names =
    [''id'', ''mass'', ''volume'', ''pressure'',
     ''coord_x'', ''coord_y'', ''coord_z'', ''displacement_x'',
     ''displacement_y'', ''displacement_z'', ''nsize_x'', ''nsize_y'',
     ''nsize_z'', ''velocity_x'', ''velocity_y'', ''velocity_z'',
     ''acceleration_x'', ''acceleration_y'', ''acceleration_z'', ''stress_xx'',
     ''stress_yy'', ''stress_zz'', ''tau_xy'', ''tau_yz'',
     ''tau_xz'', ''strain_xx'', ''strain_yy'', ''strain_zz'',
     ''gamma_xy'', ''gamma_yz'', ''gamma_xz'', ''epsilon_v'',
     ''status'', ''cell_id'', ''material_id'', ''nstate_vars'',
     ''svars_0'', ''svars_1'', ''svars_2'', ''svars_3'',
     ''svars_4'', ''svars_5'', ''svars_6'', ''svars_7'',
     ''svars_8'', ''svars_9'', ''svars_10'', ''svars_11'',
     ''svars_12'', ''svars_13'', ''svars_14'', ''svars_15'',
     ''svars_16'', ''svars_17'', ''svars_18'', ''svars_19'']"

text \<open>The initialisers of \<open>field_type\<close>, as the source lists them.\<close>

definition field_type_initialisers :: "hid_t list" where
  "field_type_initialisers =
    [H5T_NATIVE_LLONG, H5T_NATIVE_DOUBLE, H5T_NATIVE_DOUBLE, H5T_NATIVE_DOUBLE,
     H5T_NATIVE_DOUBLE, H5T_NATIVE_DOUBLE, H5T_NATIVE_DOUBLE, H5T_NATIVE_DOUBLE,
     H5T_NATIVE_DOUBLE, H5T_NATIVE_DOUBLE, H5T_NATIVE_DOUBLE, H5T_NATIVE_DOUBLE,
     H5T_NATIVE_DOUBLE, H5T_NATIVE_DOUBLE, H5T_NATIVE_DOUBLE, H5T_NATIVE_DOUBLE,
     H5T_NATIVE_DOUBLE, H5T_NATIVE_DOUBLE, H5T_NATIVE_DOUBLE, H5T_NATIVE_DOUBLE,
     H5T_NATIVE_DOUBLE, H5T_NATIVE_DOUBLE, H5T_NATIVE_DOUBLE, H5T_NATIVE_DOUBLE,
     H5T_NATIVE_DOUBLE, H5T_NATIVE_DOUBLE, H5T_NATIVE_DOUBLE, H5T_NATIVE_DOUBLE,
     H5T_NATIVE_DOUBLE, H5T_NATIVE_HBOOL, H5T_NATIVE_LLONG, H5T_NATIVE_UINT,
     H5T_NATIVE_UINT, H5T_NATIVE_DOUBLE, H5T_NATIVE_DOUBLE, H5T_NATIVE_DOUBLE,
     H5T_NATIVE_DOUBLE, H5T_NATIVE_DOUBLE, H5T_NATIVE_DOUBLE, H5T_NATIVE_DOUBLE,
     H5T_NATIVE_DOUBLE, H5T_NATIVE_DOUBLE, H5T_NATIVE_DOUBLE, H5T_NATIVE_DOUBLE,
     H5T_NATIVE_DOUBLE, H5T_NATIVE_DOUBLE, H5T_NATIVE_DOUBLE, H5T_NATIVE_DOUBLE,
     H5T_NATIVE_DOUBLE, H5T_NATIVE_DOUBLE, H5T_NATIVE_DOUBLE, H5T_NATIVE_DOUBLE,
     H5T_NATIVE_DOUBLE]"

text \<open>\<open>const hid_t field_type[NFIELDS] = {...}\<close>: the initialisers, and zero in the
  elements that have none.\<close>

definition field_type :: "hid_t list" where
  "field_type =
     field_type_initialisers @
     replicate (NFIELDS - length field_type_initialisers) Zero_initialised"

text \<open>Modelled from the spec: the native type of each field of the persisted record, in
  the record's order: a 64-bit integer for the id, doubles for mass, volume, pressure, the
  coordinates, displacements, sizes, velocities, accelerations, stresses, strains and the
  volumetric strain, a boolean for the status, a 64-bit integer for the cell id, unsigned
  integers for the material id and the number of state variables, and 20 doubles.\<close>

definition spec_record_types :: "hid_t list" where
  "spec_record_types =
     [H5T_NATIVE_LLONG] @ replicate 31 H5T_NATIVE_DOUBLE @
     [H5T_NATIVE_HBOOL, H5T_NATIVE_LLONG, H5T_NATIVE_UINT, H5T_NATIVE_UINT] @
     replicate 20 H5T_NATIVE_DOUBLE"


section \<open>Binary64 arithmetic\<close>

text \<open>
  The functions above compute in exact arithmetic. The source computes with binary64
  values (IEEE 754 doubles): each \<open>+\<close>, \<open>-\<close>, \<open>*\<close> and \<open>/\<close> returns the exact result
  rounded to the nearest binary64 value, a tie going to the even significand. A finite
  binary64 value is a real, and \<open>round64\<close> is that rounding: 53 significant bits in the
  normal range, multiples of \<open>2^-1074\<close> below \<open>2^-1022\<close>. Overflow is left out: no value
  below comes near \<open>2^1024\<close>. The operations are taken one at a time in the order the source
  writes them, neither fused nor reassociated.
\<close>

text \<open>The nearest integer, a tie going to the even one.\<close>

definition round_to_even :: "real \<Rightarrow> int" where
  "round_to_even x =
    (let n = \<lfloor>x\<rfloor>; r = x - of_int n in
     if r < 1 / 2 then n else if 1 / 2 < r then n + 1 else if even n then n else n + 1)"

text \<open>The binary exponent of a value: how often a value of at least 1 is halved until it is
  below 2, how often a value below 1 is doubled until it is at least 1; kept within
  \<open>-1022\<close> and \<open>1023\<close>.\<close>

primrec halvings :: "nat \<Rightarrow> real \<Rightarrow> nat" where
  "halvings 0 x = 0"
| "halvings (Suc n) x = (if x < 2 then 0 else Suc (halvings n (x / 2)))"

primrec doublings :: "nat \<Rightarrow> real \<Rightarrow> nat" where
  "doublings 0 x = 0"
| "doublings (Suc n) x = (if 1 \<le> x then 0 else Suc (doublings n (2 * x)))"

definition binary64_exponent :: "real \<Rightarrow> int" where
  "binary64_exponent x =
    (if 1 \<le> \<bar>x\<bar> then int (halvings 1023 \<bar>x\<bar>) else - int (doublings 1022 \<bar>x\<bar>))"

text \<open>The spacing of the binary64 values around \<open>x\<close>, and the rounding itself.\<close>

definition binary64_quantum :: "real \<Rightarrow> real" where
  "binary64_quantum x = 2 powi (binary64_exponent x - 52)"

definition round64 :: "real \<Rightarrow> real" where
  "round64 x = of_int (round_to_even (x / binary64_quantum x)) * binary64_quantum x"

definition add64 :: "real \<Rightarrow> real \<Rightarrow> real" where
  "add64 a b = round64 (a + b)"

definition sub64 :: "real \<Rightarrow> real \<Rightarrow> real" where
  "sub64 a b = round64 (a - b)"

definition mul64 :: "real \<Rightarrow> real \<Rightarrow> real" where
  "mul64 a b = round64 (a * b)"

definition div64 :: "real \<Rightarrow> real \<Rightarrow> real" where
  "div64 a b = round64 (a / b)"

subsection \<open>Shape functions in binary64\<close>

text \<open>\<open>HexahedronElement<3, 8>::shapefn\<close> with every operation rounded: the product
  \<open>0.125 * (1 - xi(0)) * (1 - xi(1)) * (1 - xi(2))\<close> associates to the left.\<close>

fun shapefn8_binary64 :: "vector3 \<Rightarrow> vector3 \<Rightarrow> matrix3 \<Rightarrow> vectorXd" where
  "shapefn8_binary64 (xi0, xi1, xi2) particle_size deformation_gradient =
    [mul64 (mul64 (mul64 0.125 (sub64 1 xi0)) (sub64 1 xi1)) (sub64 1 xi2),
     mul64 (mul64 (mul64 0.125 (add64 1 xi0)) (sub64 1 xi1)) (sub64 1 xi2),
     mul64 (mul64 (mul64 0.125 (add64 1 xi0)) (add64 1 xi1)) (sub64 1 xi2),
     mul64 (mul64 (mul64 0.125 (sub64 1 xi0)) (add64 1 xi1)) (sub64 1 xi2),
     mul64 (mul64 (mul64 0.125 (sub64 1 xi0)) (sub64 1 xi1)) (add64 1 xi2),
     mul64 (mul64 (mul64 0.125 (add64 1 xi0)) (sub64 1 xi1)) (add64 1 xi2),
     mul64 (mul64 (mul64 0.125 (add64 1 xi0)) (add64 1 xi1)) (add64 1 xi2),
     mul64 (mul64 (mul64 0.125 (sub64 1 xi0)) (add64 1 xi1)) (add64 1 xi2)]"

text \<open>\<open>HexahedronElement<3, 20>::shapefn\<close> with every operation rounded, entries by
  index.\<close>

fun shapefn20_binary64 :: "vector3 \<Rightarrow> vector3 \<Rightarrow> matrix3 \<Rightarrow> vectorXd" where
  "shapefn20_binary64 (xi0, xi1, xi2) particle_size deformation_gradient =
    [mul64 (mul64 (mul64 (mul64 (- 0.125) (sub64 1 xi0)) (sub64 1 xi1)) (sub64 1 xi2)) (add64 (add64 (add64 2 xi0) xi1) xi2),
     mul64 (mul64 (mul64 (mul64 (- 0.125) (add64 1 xi0)) (sub64 1 xi1)) (sub64 1 xi2)) (add64 (add64 (sub64 2 xi0) xi1) xi2),
     mul64 (mul64 (mul64 (mul64 (- 0.125) (add64 1 xi0)) (add64 1 xi1)) (sub64 1 xi2)) (add64 (sub64 (sub64 2 xi0) xi1) xi2),
     mul64 (mul64 (mul64 (mul64 (- 0.125) (sub64 1 xi0)) (add64 1 xi1)) (sub64 1 xi2)) (add64 (sub64 (add64 2 xi0) xi1) xi2),
     mul64 (mul64 (mul64 (mul64 (- 0.125) (sub64 1 xi0)) (sub64 1 xi1)) (add64 1 xi2)) (sub64 (add64 (add64 2 xi0) xi1) xi2),
     mul64 (mul64 (mul64 (mul64 (- 0.125) (add64 1 xi0)) (sub64 1 xi1)) (add64 1 xi2)) (sub64 (add64 (sub64 2 xi0) xi1) xi2),
     mul64 (mul64 (mul64 (mul64 (- 0.125) (add64 1 xi0)) (add64 1 xi1)) (add64 1 xi2)) (sub64 (sub64 (sub64 2 xi0) xi1) xi2),
     mul64 (mul64 (mul64 (mul64 (- 0.125) (sub64 1 xi0)) (add64 1 xi1)) (add64 1 xi2)) (sub64 (sub64 (add64 2 xi0) xi1) xi2),
     mul64 (mul64 (mul64 0.25 (sub64 1 (mul64 xi0 xi0))) (sub64 1 xi1)) (sub64 1 xi2),
     mul64 (mul64 (mul64 0.25 (sub64 1 (mul64 xi1 xi1))) (sub64 1 xi0)) (sub64 1 xi2),
     mul64 (mul64 (mul64 0.25 (sub64 1 (mul64 xi2 xi2))) (sub64 1 xi0)) (sub64 1 xi1),
     mul64 (mul64 (mul64 0.25 (sub64 1 (mul64 xi1 xi1))) (add64 1 xi0)) (sub64 1 xi2),
     mul64 (mul64 (mul64 0.25 (sub64 1 (mul64 xi2 xi2))) (add64 1 xi0)) (sub64 1 xi1),
     mul64 (mul64 (mul64 0.25 (sub64 1 (mul64 xi0 xi0))) (add64 1 xi1)) (sub64 1 xi2),
     mul64 (mul64 (mul64 0.25 (sub64 1 (mul64 xi2 xi2))) (add64 1 xi0)) (add64 1 xi1),
     mul64 (mul64 (mul64 0.25 (sub64 1 (mul64 xi2 xi2))) (sub64 1 xi0)) (add64 1 xi1),
     mul64 (mul64 (mul64 0.25 (sub64 1 (mul64 xi0 xi0))) (sub64 1 xi1)) (add64 1 xi2),
     mul64 (mul64 (mul64 0.25 (sub64 1 (mul64 xi1 xi1))) (sub64 1 xi0)) (add64 1 xi2),
     mul64 (mul64 (mul64 0.25 (sub64 1 (mul64 xi1 xi1))) (add64 1 xi0)) (add64 1 xi2),
     mul64 (mul64 (mul64 0.25 (sub64 1 (mul64 xi0 xi0))) (add64 1 xi1)) (add64 1 xi2)]"

fun shapefn_binary64 :: "hexahedron \<Rightarrow> vector3 \<Rightarrow> vector3 \<Rightarrow> matrix3 \<Rightarrow> vectorXd" where
  "shapefn_binary64 Hex8 xi particle_size deformation_gradient =
     shapefn8_binary64 xi particle_size deformation_gradient"
| "shapefn_binary64 Hex20 xi particle_size deformation_gradient =
     shapefn20_binary64 xi particle_size deformation_gradient"

subsection \<open>Volume in binary64\<close>

text \<open>The vector operations of \<open>compute_volume\<close>, coefficient by coefficient. Eigen adds
  the three products of a \<open>dot\<close> in an order of its own; they are added here from left to
  right. On the unit cell every one of these products and sums is a small integer, which
  any order adds without rounding.\<close>

fun minus3_binary64 :: "vector3 \<Rightarrow> vector3 \<Rightarrow> vector3" where
  "minus3_binary64 (a0, a1, a2) (b0, b1, b2) = (sub64 a0 b0, sub64 a1 b1, sub64 a2 b2)"

fun plus3_binary64 :: "vector3 \<Rightarrow> vector3 \<Rightarrow> vector3" where
  "plus3_binary64 (a0, a1, a2) (b0, b1, b2) = (add64 a0 b0, add64 a1 b1, add64 a2 b2)"

fun dot3_binary64 :: "vector3 \<Rightarrow> vector3 \<Rightarrow> real" where
  "dot3_binary64 (a0, a1, a2) (b0, b1, b2) =
     add64 (add64 (mul64 a0 b0) (mul64 a1 b1)) (mul64 a2 b2)"

fun cross_binary64 :: "vector3 \<Rightarrow> vector3 \<Rightarrow> vector3" where
  "cross_binary64 (a0, a1, a2) (b0, b1, b2) =
     (sub64 (mul64 a1 b2) (mul64 a2 b1), sub64 (mul64 a2 b0) (mul64 a0 b2),
      sub64 (mul64 a0 b1) (mul64 a1 b0))"

text \<open>\<open>HexahedronElement::compute_volume\<close> with every operation rounded: the quotient
  \<open>1.0 / 12\<close>, its product with each of the four \<open>dot\<close> values, and the sum of the four
  terms from left to right.\<close>

definition compute_volume_binary64 :: "matrixXd \<Rightarrow> error + real" where
  "compute_volume_binary64 nodal_coords =
    (if rows nodal_coords < 8 then Inl Index_out_of_range
     else if cols nodal_coords \<noteq> 3 then Inl Size_mismatch
     else
       (let a = row3 nodal_coords 7;
            b = row3 nodal_coords 6;
            c = row3 nodal_coords 2;
            d = row3 nodal_coords 3;
            e = row3 nodal_coords 4;
            f = row3 nodal_coords 5;
            g = row3 nodal_coords 1;
            h = row3 nodal_coords 0
        in Inr
          (add64 (add64 (add64
             (mul64 (div64 1 12) (dot3_binary64 (minus3_binary64 a g)
                (plus3_binary64
                   (plus3_binary64 (cross_binary64 (minus3_binary64 b d) (minus3_binary64 c a))
                      (cross_binary64 (minus3_binary64 e b) (minus3_binary64 f a)))
                   (cross_binary64 (minus3_binary64 d e) (minus3_binary64 h a)))))
             (mul64 (div64 1 12) (dot3_binary64 (minus3_binary64 b g)
                (plus3_binary64 (cross_binary64 (minus3_binary64 b d) (minus3_binary64 c a))
                   (cross_binary64 (minus3_binary64 c g) (minus3_binary64 c f))))))
             (mul64 (div64 1 12) (dot3_binary64 (minus3_binary64 e g)
                (plus3_binary64 (cross_binary64 (minus3_binary64 e b) (minus3_binary64 f a))
                   (cross_binary64 (minus3_binary64 f g) (minus3_binary64 h f))))))
             (mul64 (div64 1 12) (dot3_binary64 (minus3_binary64 d g)
                (plus3_binary64 (cross_binary64 (minus3_binary64 d e) (minus3_binary64 h a))
                   (cross_binary64 (minus3_binary64 h g) (minus3_binary64 h c))))))))"

section \<open>Inputs for the examples\<close>

text \<open>A cell twice the unit cell in every direction, and the same cell with a ninth row
  of coordinates.\<close>

definition doubled_unit_cell :: matrixXd where
  "doubled_unit_cell =
    [[-2, -2, -2],
     [ 2, -2, -2],
     [ 2,  2, -2],
     [-2,  2, -2],
     [-2, -2,  2],
     [ 2, -2,  2],
     [ 2,  2,  2],
     [-2,  2,  2]]"

definition nine_row_coordinates :: matrixXd where
  "nine_row_coordinates = unit_cell_coordinates8 @ [[0, 0, 0]]"

text \<open>A B-spline element on that cell with the 8 nodes of the cell as its connectivity,
  as \<open>initialise_bspline_connectivity_properties\<close> leaves it, and a knot vector for the
  examples: the same uniform knots for every node type.\<close>

definition regular_node_types :: "nat list list" where
  "regular_node_types =
    [[0, 0, 0], [0, 0, 0], [0, 0, 0], [0, 0, 0], [0, 0, 0], [0, 0, 0], [0, 0, 0], [0, 0, 0]]"

definition base_bspline_element :: bspline_element where
  "base_bspline_element =
    \<lparr>nconnectivity = 8, nodal_coordinates = doubled_unit_cell,
     node_type = regular_node_types, spacing_length = 4\<rparr>"

definition uniform_knot :: "nat \<Rightarrow> real list" where
  "uniform_knot ntype = [-3 / 2, -1 / 2, 1 / 2, 3 / 2]"


section \<open>Shape of the results\<close>

lemma rows_grad_shapefn: "rows (grad_shapefn k xi ps F) = nfunctions k"
  by (cases k; cases xi) (simp_all add: rows_def)

lemma cols_grad_shapefn: "cols (grad_shapefn k xi ps F) = 3"
  by (cases k; cases xi) (simp_all add: cols_def)

lemma length_shapefn: "length (shapefn k xi ps F) = nfunctions k"
  by (cases k; cases xi) simp_all

section \<open>Binary64: evaluation and rounding error\<close>

text \<open>Rules that evaluate \<open>round64\<close> at a numeral, zero apart.\<close>

lemma halvings_numeral:
  "halvings (numeral k) x = (if x < 2 then 0 else Suc (halvings (pred_numeral k) (x / 2)))"
  by (simp add: numeral_eq_Suc)

lemma doublings_numeral:
  "doublings (numeral k) x = (if 1 \<le> x then 0 else Suc (doublings (pred_numeral k) (2 * x)))"
  by (simp add: numeral_eq_Suc)

lemma doublings_zero: "doublings n 0 = n"
  by (induction n) simp_all

lemma round64_zero: "round64 0 = 0"
  by (simp add: round64_def round_to_even_def)

lemma round64_nonzero:
  "x \<noteq> 0 \<Longrightarrow> round64 x = of_int (round_to_even (x / binary64_quantum x)) * binary64_quantum x"
  by (simp add: round64_def)

lemmas binary64_eval = add64_def sub64_def mul64_def div64_def round64_zero round64_nonzero
  binary64_quantum_def binary64_exponent_def halvings_numeral doublings_numeral
  round_to_even_def Let_def

lemma add64_uminus: "add64 a (- b) = sub64 a b"
  by (simp add: add64_def sub64_def)

text \<open>Rounding a value of magnitude at most 16 moves it by at most \<open>2^-49\<close>.\<close>

lemma round_to_even_close: "\<bar>of_int (round_to_even x) - x\<bar> \<le> 1 / 2"
  unfolding round_to_even_def Let_def by (auto; linarith)

lemma halvings_le: "x < 2 ^ Suc k \<Longrightarrow> halvings n x \<le> k"
proof (induction n arbitrary: x k)
  case 0
  then show ?case by simp
next
  case (Suc n)
  show ?case
  proof (cases "x < 2")
    case True
    then show ?thesis by simp
  next
    case False
    with Suc.prems obtain j where k: "k = Suc j"
      by (cases k) auto
    have "x / 2 < 2 ^ Suc j"
      using Suc.prems k by simp
    then have "halvings n (x / 2) \<le> j"
      by (rule Suc.IH)
    then show ?thesis
      using False k by simp
  qed
qed

lemma binary64_quantum_pos: "0 < binary64_quantum x"
  by (simp add: binary64_quantum_def)

lemma binary64_quantum_le:
  assumes "\<bar>x\<bar> \<le> 16"
  shows "binary64_quantum x \<le> 1 / 2 ^ 48"
proof -
  have "binary64_exponent x \<le> 4"
  proof (cases "1 \<le> \<bar>x\<bar>")
    case True
    have "\<bar>x\<bar> < 2 ^ Suc 4"
      using assms by simp
    then have "halvings 1023 \<bar>x\<bar> \<le> 4"
      by (rule halvings_le)
    then show ?thesis
      using True by (simp add: binary64_exponent_def)
  next
    case False
    then show ?thesis
      by (simp add: binary64_exponent_def)
  qed
  then have "(2::real) powi (binary64_exponent x - 52) \<le> 2 powi (- 48)"
    by (intro power_int_increasing) auto
  then show ?thesis
    by (simp add: binary64_quantum_def power_int_minus)
qed

lemma round64_close:
  assumes "\<bar>x\<bar> \<le> 16"
  shows "\<bar>round64 x - x\<bar> \<le> 1 / 2 ^ 49"
proof -
  let ?q = "binary64_quantum x"
  have q: "0 < ?q" by (rule binary64_quantum_pos)
  have "round64 x - x = (of_int (round_to_even (x / ?q)) - x / ?q) * ?q"
    using q by (simp add: round64_def field_simps)
  then have "\<bar>round64 x - x\<bar> = \<bar>of_int (round_to_even (x / ?q)) - x / ?q\<bar> * ?q"
    using q by (simp add: abs_mult)
  also have "\<dots> \<le> (1 / 2) * ?q"
    using q round_to_even_close [of "x / ?q"] by (intro mult_right_mono) auto
  also have "\<dots> \<le> (1 / 2) * (1 / 2 ^ 48)"
    using binary64_quantum_le [OF assms] by simp
  finally show ?thesis by simp
qed

lemma mul64_close:
  assumes a: "\<bar>a' - a\<bar> \<le> da" and b: "\<bar>b' - b\<bar> \<le> db"
    and A: "\<bar>a\<bar> \<le> A" and B: "\<bar>b'\<bar> \<le> B" and cap: "(A + da) * B \<le> 16"
  shows "\<bar>mul64 a' b' - a * b\<bar> \<le> A * db + da * B + 1 / 2 ^ 49"
proof -
  have a': "\<bar>a'\<bar> \<le> A + da" using a A by linarith
  have "\<bar>a' * b'\<bar> = \<bar>a'\<bar> * \<bar>b'\<bar>" by (simp add: abs_mult)
  also have "\<dots> \<le> (A + da) * B"
    using a' B by (intro mult_mono) auto
  finally have "\<bar>a' * b'\<bar> \<le> 16" using cap by linarith
  then have r: "\<bar>mul64 a' b' - a' * b'\<bar> \<le> 1 / 2 ^ 49"
    unfolding mul64_def by (rule round64_close)
  have "a' * b' - a * b = (a' - a) * b' + a * (b' - b)"
    by (simp add: algebra_simps)
  then have "\<bar>a' * b' - a * b\<bar> \<le> \<bar>(a' - a) * b'\<bar> + \<bar>a * (b' - b)\<bar>"
    by (metis abs_triangle_ineq)
  also have "\<dots> = \<bar>a' - a\<bar> * \<bar>b'\<bar> + \<bar>a\<bar> * \<bar>b' - b\<bar>"
    by (simp add: abs_mult)
  also have "\<dots> \<le> da * B + A * db"
    using a b A B by (intro add_mono mult_mono) auto
  finally have "\<bar>a' * b' - a * b\<bar> \<le> da * B + A * db" .
  then show ?thesis using r by linarith
qed

lemma add64_close:
  assumes a: "\<bar>a' - a\<bar> \<le> da" and b: "\<bar>b' - b\<bar> \<le> db"
    and A: "\<bar>a\<bar> \<le> A" and B: "\<bar>b\<bar> \<le> B" and cap: "A + da + B + db \<le> 16"
  shows "\<bar>add64 a' b' - (a + b)\<bar> \<le> da + db + 1 / 2 ^ 49"
proof -
  have "\<bar>a' + b'\<bar> \<le> 16" using assms by linarith
  then have "\<bar>add64 a' b' - (a' + b')\<bar> \<le> 1 / 2 ^ 49"
    unfolding add64_def by (rule round64_close)
  then show ?thesis using a b by linarith
qed

lemma sub64_close:
  assumes a: "\<bar>a' - a\<bar> \<le> da" and b: "\<bar>b' - b\<bar> \<le> db"
    and A: "\<bar>a\<bar> \<le> A" and B: "\<bar>b\<bar> \<le> B" and cap: "A + da + B + db \<le> 16"
  shows "\<bar>sub64 a' b' - (a - b)\<bar> \<le> da + db + 1 / 2 ^ 49"
proof -
  have "\<bar>a' - b'\<bar> \<le> 16" using assms by linarith
  then have "\<bar>sub64 a' b' - (a' - b')\<bar> \<le> 1 / 2 ^ 49"
    unfolding sub64_def by (rule round64_close)
  then show ?thesis using a b by linarith
qed


lemma factor_plus_close:
  assumes "\<bar>p\<bar> \<le> 1"
  shows "\<bar>add64 1 p - (1 + p)\<bar> \<le> 2 / 2 ^ 49"
  using add64_close [of 1 1 0 p p 0 1 1] assms by simp

lemma factor_square_close:
  assumes "\<bar>p\<bar> \<le> 1"
  shows "\<bar>sub64 1 (mul64 p p) - (1 - p * p)\<bar> \<le> 2 / 2 ^ 49"
proof -
  have m: "\<bar>mul64 p p - p * p\<bar> \<le> 1 / 2 ^ 49"
    using mul64_close [of p p 0 p p 0 1 1] assms by simp
  have "\<bar>p * p\<bar> \<le> 1 * 1"
    unfolding abs_mult using assms by (intro mult_mono) auto
  then have pp: "\<bar>p * p\<bar> \<le> 1" by simp
  show ?thesis
    using sub64_close [of 1 1 0 "mul64 p p" "p * p" "1 / 2 ^ 49" 1 1] m pp by simp
qed

lemma square_factor_le:
  assumes "\<bar>p\<bar> \<le> (1::real)"
  shows "\<bar>1 - p * p\<bar> \<le> 2"
proof -
  have "\<bar>p * p\<bar> \<le> 1 * 1"
    unfolding abs_mult using assms by (intro mult_mono) auto
  then show ?thesis by linarith
qed

lemma approximation_le:
  fixes a :: real
  assumes "\<bar>a' - a\<bar> \<le> d" and "\<bar>a\<bar> \<le> A" and "d \<le> 1"
  shows "\<bar>a'\<bar> \<le> A + 1"
  using assms by linarith

lemma product64_close:
  assumes c: "\<bar>c\<bar> \<le> 1 / 4"
    and f1: "\<bar>f1' - f1\<bar> \<le> 2 / 2 ^ 49" "\<bar>f1\<bar> \<le> 2"
    and f2: "\<bar>f2' - f2\<bar> \<le> 2 / 2 ^ 49" "\<bar>f2\<bar> \<le> 2"
    and f3: "\<bar>f3' - f3\<bar> \<le> 2 / 2 ^ 49" "\<bar>f3\<bar> \<le> 2"
  shows "\<bar>mul64 (mul64 (mul64 c f1') f2') f3' - c * f1 * f2 * f3\<bar> \<le> 27 / 2 ^ 49"
    and "\<bar>c * f1 * f2 * f3\<bar> \<le> 2"
proof -
  have b1: "\<bar>f1'\<bar> \<le> 3" and b2: "\<bar>f2'\<bar> \<le> 3" and b3: "\<bar>f3'\<bar> \<le> 3"
    using approximation_le [OF f1] approximation_le [OF f2] approximation_le [OF f3]
    by simp_all
  have t1: "\<bar>mul64 c f1' - c * f1\<bar> \<le> 2 / 2 ^ 49"
    using mul64_close [of c c 0 f1' f1 "2 / 2 ^ 49" "1 / 4" 3] c f1 b1 by simp
  have "\<bar>c * f1\<bar> \<le> (1 / 4) * 2"
    unfolding abs_mult using c f1 by (intro mult_mono) auto
  then have e1: "\<bar>c * f1\<bar> \<le> 1 / 2" by simp
  have t2: "\<bar>mul64 (mul64 c f1') f2' - c * f1 * f2\<bar> \<le> 8 / 2 ^ 49"
    using mul64_close [of "mul64 c f1'" "c * f1" "2 / 2 ^ 49" f2' f2 "2 / 2 ^ 49" "1 / 2" 3]
      t1 e1 f2 b2 by simp
  have "\<bar>c * f1 * f2\<bar> \<le> (1 / 2) * 2"
    unfolding abs_mult [of "c * f1" f2] using e1 f2 by (intro mult_mono) auto
  then have e2: "\<bar>c * f1 * f2\<bar> \<le> 1" by simp
  show "\<bar>mul64 (mul64 (mul64 c f1') f2') f3' - c * f1 * f2 * f3\<bar> \<le> 27 / 2 ^ 49"
    using mul64_close [of "mul64 (mul64 c f1') f2'" "c * f1 * f2" "8 / 2 ^ 49" f3' f3
        "2 / 2 ^ 49" 1 3]
      t2 e2 f3 b3 by simp
  have "\<bar>c * f1 * f2 * f3\<bar> \<le> 1 * 2"
    unfolding abs_mult [of "c * f1 * f2" f3] using e2 f3 by (intro mult_mono) auto
  then show "\<bar>c * f1 * f2 * f3\<bar> \<le> 2" by simp
qed

lemma sum64_close:
  assumes "\<bar>p\<bar> \<le> 1" "\<bar>q\<bar> \<le> 1" "\<bar>r\<bar> \<le> 1"
  shows "\<bar>add64 (add64 (add64 2 p) q) r - (2 + p + q + r)\<bar> \<le> 3 / 2 ^ 49"
proof -
  have s1: "\<bar>add64 2 p - (2 + p)\<bar> \<le> 1 / 2 ^ 49"
    using add64_close [of 2 2 0 p p 0 2 1] assms by simp
  have s2: "\<bar>add64 (add64 2 p) q - (2 + p + q)\<bar> \<le> 2 / 2 ^ 49"
    using add64_close [of "add64 2 p" "2 + p" "1 / 2 ^ 49" q q 0 3 1] s1 assms by simp
  show ?thesis
    using add64_close [of "add64 (add64 2 p) q" "2 + p + q" "2 / 2 ^ 49" r r 0 4 1] s2 assms
    by simp
qed

lemma corner64_close:
  assumes c: "\<bar>c\<bar> \<le> 1 / 4"
    and f1: "\<bar>f1' - f1\<bar> \<le> 2 / 2 ^ 49" "\<bar>f1\<bar> \<le> 2"
    and f2: "\<bar>f2' - f2\<bar> \<le> 2 / 2 ^ 49" "\<bar>f2\<bar> \<le> 2"
    and f3: "\<bar>f3' - f3\<bar> \<le> 2 / 2 ^ 49" "\<bar>f3\<bar> \<le> 2"
    and g: "\<bar>g' - g\<bar> \<le> 3 / 2 ^ 49" "\<bar>g\<bar> \<le> 5"
  shows "\<bar>mul64 (mul64 (mul64 (mul64 c f1') f2') f3') g' - c * f1 * f2 * f3 * g\<bar> \<le> 169 / 2 ^ 49"
proof -
  have bg: "\<bar>g'\<bar> \<le> 6" using approximation_le [OF g] by simp
  show ?thesis
    using mul64_close [of "mul64 (mul64 (mul64 c f1') f2') f3'" "c * f1 * f2 * f3" "27 / 2 ^ 49"
        g' g "3 / 2 ^ 49" 2 6]
      product64_close [OF c f1 f2 f3] g bg by simp
qed

lemma factor_minus_close:
  assumes "\<bar>p\<bar> \<le> 1"
  shows "\<bar>sub64 1 p - (1 - p)\<bar> \<le> 2 / 2 ^ 49"
  using factor_plus_close [of "- p"] assms by (simp add: add64_uminus)

lemma sum_list_close:
  fixes es ps :: "real list"
  assumes "list_all2 (\<lambda>e p. \<bar>e - p\<bar> \<le> d) es ps"
  shows "\<bar>sum_list es - sum_list ps\<bar> \<le> real (length es) * d"
  using assms
proof (induction rule: list_all2_induct)
  case Nil
  then show ?case by simp
next
  case (Cons e es p ps)
  have "\<bar>(e + sum_list es) - (p + sum_list ps)\<bar> \<le> \<bar>e - p\<bar> + \<bar>sum_list es - sum_list ps\<bar>"
    by linarith
  then show ?case
    using Cons by (simp add: algebra_simps)
qed

text \<open>Every entry of the binary64 shape functions is close to the exact entry.\<close>

lemma shapefn8_binary64_close:
  assumes "\<bar>xi0\<bar> \<le> 1" and "\<bar>xi1\<bar> \<le> 1" and "\<bar>xi2\<bar> \<le> 1"
  shows "list_all2 (\<lambda>e p. \<bar>e - p\<bar> \<le> 27 / 2 ^ 49)
           (shapefn8_binary64 (xi0, xi1, xi2) ps F) (shapefn8 (xi0, xi1, xi2) ps F)"
proof -
  have c8: "\<bar>0.125\<bar> \<le> (1 / 4 :: real)"
    by simp
  have fm_xi0: "\<bar>sub64 1 xi0 - (1 - xi0)\<bar> \<le> 2 / 2 ^ 49" "\<bar>1 - xi0\<bar> \<le> 2"
    using factor_minus_close [of xi0] assms by simp_all
  have fp_xi0: "\<bar>add64 1 xi0 - (1 + xi0)\<bar> \<le> 2 / 2 ^ 49" "\<bar>1 + xi0\<bar> \<le> 2"
    using factor_plus_close [of xi0] assms by simp_all
  have fm_xi1: "\<bar>sub64 1 xi1 - (1 - xi1)\<bar> \<le> 2 / 2 ^ 49" "\<bar>1 - xi1\<bar> \<le> 2"
    using factor_minus_close [of xi1] assms by simp_all
  have fp_xi1: "\<bar>add64 1 xi1 - (1 + xi1)\<bar> \<le> 2 / 2 ^ 49" "\<bar>1 + xi1\<bar> \<le> 2"
    using factor_plus_close [of xi1] assms by simp_all
  have fm_xi2: "\<bar>sub64 1 xi2 - (1 - xi2)\<bar> \<le> 2 / 2 ^ 49" "\<bar>1 - xi2\<bar> \<le> 2"
    using factor_minus_close [of xi2] assms by simp_all
  have fp_xi2: "\<bar>add64 1 xi2 - (1 + xi2)\<bar> \<le> 2 / 2 ^ 49" "\<bar>1 + xi2\<bar> \<le> 2"
    using factor_plus_close [of xi2] assms by simp_all
  have e0: "\<bar>mul64 (mul64 (mul64 0.125 (sub64 1 xi0)) (sub64 1 xi1)) (sub64 1 xi2) -
      0.125 * (1 - xi0) * (1 - xi1) * (1 - xi2)\<bar> \<le> 27 / 2 ^ 49"
    by (rule product64_close(1) [OF c8 fm_xi0 fm_xi1 fm_xi2])
  have e1: "\<bar>mul64 (mul64 (mul64 0.125 (add64 1 xi0)) (sub64 1 xi1)) (sub64 1 xi2) -
      0.125 * (1 + xi0) * (1 - xi1) * (1 - xi2)\<bar> \<le> 27 / 2 ^ 49"
    by (rule product64_close(1) [OF c8 fp_xi0 fm_xi1 fm_xi2])
  have e2: "\<bar>mul64 (mul64 (mul64 0.125 (add64 1 xi0)) (add64 1 xi1)) (sub64 1 xi2) -
      0.125 * (1 + xi0) * (1 + xi1) * (1 - xi2)\<bar> \<le> 27 / 2 ^ 49"
    by (rule product64_close(1) [OF c8 fp_xi0 fp_xi1 fm_xi2])
  have e3: "\<bar>mul64 (mul64 (mul64 0.125 (sub64 1 xi0)) (add64 1 xi1)) (sub64 1 xi2) -
      0.125 * (1 - xi0) * (1 + xi1) * (1 - xi2)\<bar> \<le> 27 / 2 ^ 49"
    by (rule product64_close(1) [OF c8 fm_xi0 fp_xi1 fm_xi2])
  have e4: "\<bar>mul64 (mul64 (mul64 0.125 (sub64 1 xi0)) (sub64 1 xi1)) (add64 1 xi2) -
      0.125 * (1 - xi0) * (1 - xi1) * (1 + xi2)\<bar> \<le> 27 / 2 ^ 49"
    by (rule product64_close(1) [OF c8 fm_xi0 fm_xi1 fp_xi2])
  have e5: "\<bar>mul64 (mul64 (mul64 0.125 (add64 1 xi0)) (sub64 1 xi1)) (add64 1 xi2) -
      0.125 * (1 + xi0) * (1 - xi1) * (1 + xi2)\<bar> \<le> 27 / 2 ^ 49"
    by (rule product64_close(1) [OF c8 fp_xi0 fm_xi1 fp_xi2])
  have e6: "\<bar>mul64 (mul64 (mul64 0.125 (add64 1 xi0)) (add64 1 xi1)) (add64 1 xi2) -
      0.125 * (1 + xi0) * (1 + xi1) * (1 + xi2)\<bar> \<le> 27 / 2 ^ 49"
    by (rule product64_close(1) [OF c8 fp_xi0 fp_xi1 fp_xi2])
  have e7: "\<bar>mul64 (mul64 (mul64 0.125 (sub64 1 xi0)) (add64 1 xi1)) (add64 1 xi2) -
      0.125 * (1 - xi0) * (1 + xi1) * (1 + xi2)\<bar> \<le> 27 / 2 ^ 49"
    by (rule product64_close(1) [OF c8 fm_xi0 fp_xi1 fp_xi2])
  show ?thesis
    by (simp only: shapefn8_binary64.simps shapefn8.simps list_all2_Cons list_all2_Nil
        simp_thms e0 e1 e2 e3 e4 e5 e6 e7)
qed

lemma shapefn20_binary64_close:
  assumes "\<bar>xi0\<bar> \<le> 1" and "\<bar>xi1\<bar> \<le> 1" and "\<bar>xi2\<bar> \<le> 1"
  shows "list_all2 (\<lambda>e p. \<bar>e - p\<bar> \<le> 169 / 2 ^ 49)
           (shapefn20_binary64 (xi0, xi1, xi2) ps F) (shapefn20 (xi0, xi1, xi2) ps F)"
proof -
  have c8m: "\<bar>- 0.125\<bar> \<le> (1 / 4 :: real)"
    by simp
  have c4: "\<bar>0.25\<bar> \<le> (1 / 4 :: real)"
    by simp
  have fm_xi0: "\<bar>sub64 1 xi0 - (1 - xi0)\<bar> \<le> 2 / 2 ^ 49" "\<bar>1 - xi0\<bar> \<le> 2"
    using factor_minus_close [of xi0] assms by simp_all
  have fp_xi0: "\<bar>add64 1 xi0 - (1 + xi0)\<bar> \<le> 2 / 2 ^ 49" "\<bar>1 + xi0\<bar> \<le> 2"
    using factor_plus_close [of xi0] assms by simp_all
  have sq_xi0: "\<bar>sub64 1 (mul64 xi0 xi0) - (1 - xi0 * xi0)\<bar> \<le> 2 / 2 ^ 49"
    "\<bar>1 - xi0 * xi0\<bar> \<le> 2"
    using factor_square_close [of xi0] square_factor_le [of xi0] assms by simp_all
  have fm_xi1: "\<bar>sub64 1 xi1 - (1 - xi1)\<bar> \<le> 2 / 2 ^ 49" "\<bar>1 - xi1\<bar> \<le> 2"
    using factor_minus_close [of xi1] assms by simp_all
  have fp_xi1: "\<bar>add64 1 xi1 - (1 + xi1)\<bar> \<le> 2 / 2 ^ 49" "\<bar>1 + xi1\<bar> \<le> 2"
    using factor_plus_close [of xi1] assms by simp_all
  have sq_xi1: "\<bar>sub64 1 (mul64 xi1 xi1) - (1 - xi1 * xi1)\<bar> \<le> 2 / 2 ^ 49"
    "\<bar>1 - xi1 * xi1\<bar> \<le> 2"
    using factor_square_close [of xi1] square_factor_le [of xi1] assms by simp_all
  have fm_xi2: "\<bar>sub64 1 xi2 - (1 - xi2)\<bar> \<le> 2 / 2 ^ 49" "\<bar>1 - xi2\<bar> \<le> 2"
    using factor_minus_close [of xi2] assms by simp_all
  have fp_xi2: "\<bar>add64 1 xi2 - (1 + xi2)\<bar> \<le> 2 / 2 ^ 49" "\<bar>1 + xi2\<bar> \<le> 2"
    using factor_plus_close [of xi2] assms by simp_all
  have sq_xi2: "\<bar>sub64 1 (mul64 xi2 xi2) - (1 - xi2 * xi2)\<bar> \<le> 2 / 2 ^ 49"
    "\<bar>1 - xi2 * xi2\<bar> \<le> 2"
    using factor_square_close [of xi2] square_factor_le [of xi2] assms by simp_all
  have g_mmm: "\<bar>sub64 (sub64 (sub64 2 xi0) xi1) xi2 - (2 - xi0 - xi1 - xi2)\<bar> \<le> 3 / 2 ^ 49"
    "\<bar>2 - xi0 - xi1 - xi2\<bar> \<le> 5"
    using sum64_close [of "- xi0" "- xi1" "- xi2"] assms
    by (simp_all add: add64_uminus)
  have g_mmp: "\<bar>add64 (sub64 (sub64 2 xi0) xi1) xi2 - (2 - xi0 - xi1 + xi2)\<bar> \<le> 3 / 2 ^ 49"
    "\<bar>2 - xi0 - xi1 + xi2\<bar> \<le> 5"
    using sum64_close [of "- xi0" "- xi1" xi2] assms
    by (simp_all add: add64_uminus)
  have g_mpm: "\<bar>sub64 (add64 (sub64 2 xi0) xi1) xi2 - (2 - xi0 + xi1 - xi2)\<bar> \<le> 3 / 2 ^ 49"
    "\<bar>2 - xi0 + xi1 - xi2\<bar> \<le> 5"
    using sum64_close [of "- xi0" xi1 "- xi2"] assms
    by (simp_all add: add64_uminus)
  have g_mpp: "\<bar>add64 (add64 (sub64 2 xi0) xi1) xi2 - (2 - xi0 + xi1 + xi2)\<bar> \<le> 3 / 2 ^ 49"
    "\<bar>2 - xi0 + xi1 + xi2\<bar> \<le> 5"
    using sum64_close [of "- xi0" xi1 xi2] assms
    by (simp_all add: add64_uminus)
  have g_pmm: "\<bar>sub64 (sub64 (add64 2 xi0) xi1) xi2 - (2 + xi0 - xi1 - xi2)\<bar> \<le> 3 / 2 ^ 49"
    "\<bar>2 + xi0 - xi1 - xi2\<bar> \<le> 5"
    using sum64_close [of xi0 "- xi1" "- xi2"] assms
    by (simp_all add: add64_uminus)
  have g_pmp: "\<bar>add64 (sub64 (add64 2 xi0) xi1) xi2 - (2 + xi0 - xi1 + xi2)\<bar> \<le> 3 / 2 ^ 49"
    "\<bar>2 + xi0 - xi1 + xi2\<bar> \<le> 5"
    using sum64_close [of xi0 "- xi1" xi2] assms
    by (simp_all add: add64_uminus)
  have g_ppm: "\<bar>sub64 (add64 (add64 2 xi0) xi1) xi2 - (2 + xi0 + xi1 - xi2)\<bar> \<le> 3 / 2 ^ 49"
    "\<bar>2 + xi0 + xi1 - xi2\<bar> \<le> 5"
    using sum64_close [of xi0 xi1 "- xi2"] assms
    by (simp_all add: add64_uminus)
  have g_ppp: "\<bar>add64 (add64 (add64 2 xi0) xi1) xi2 - (2 + xi0 + xi1 + xi2)\<bar> \<le> 3 / 2 ^ 49"
    "\<bar>2 + xi0 + xi1 + xi2\<bar> \<le> 5"
    using sum64_close [of xi0 xi1 xi2] assms
    by (simp_all add: add64_uminus)
  have e0: "\<bar>mul64 (mul64 (mul64 (mul64 (- 0.125) (sub64 1 xi0)) (sub64 1 xi1)) (sub64 1 xi2)) (add64 (add64 (add64 2 xi0) xi1) xi2) -
      - 0.125 * (1 - xi0) * (1 - xi1) * (1 - xi2) * (2 + xi0 + xi1 + xi2)\<bar> \<le> 169 / 2 ^ 49"
    by (rule corner64_close [OF c8m fm_xi0 fm_xi1 fm_xi2 g_ppp])
  have e1: "\<bar>mul64 (mul64 (mul64 (mul64 (- 0.125) (add64 1 xi0)) (sub64 1 xi1)) (sub64 1 xi2)) (add64 (add64 (sub64 2 xi0) xi1) xi2) -
      - 0.125 * (1 + xi0) * (1 - xi1) * (1 - xi2) * (2 - xi0 + xi1 + xi2)\<bar> \<le> 169 / 2 ^ 49"
    by (rule corner64_close [OF c8m fp_xi0 fm_xi1 fm_xi2 g_mpp])
  have e2: "\<bar>mul64 (mul64 (mul64 (mul64 (- 0.125) (add64 1 xi0)) (add64 1 xi1)) (sub64 1 xi2)) (add64 (sub64 (sub64 2 xi0) xi1) xi2) -
      - 0.125 * (1 + xi0) * (1 + xi1) * (1 - xi2) * (2 - xi0 - xi1 + xi2)\<bar> \<le> 169 / 2 ^ 49"
    by (rule corner64_close [OF c8m fp_xi0 fp_xi1 fm_xi2 g_mmp])
  have e3: "\<bar>mul64 (mul64 (mul64 (mul64 (- 0.125) (sub64 1 xi0)) (add64 1 xi1)) (sub64 1 xi2)) (add64 (sub64 (add64 2 xi0) xi1) xi2) -
      - 0.125 * (1 - xi0) * (1 + xi1) * (1 - xi2) * (2 + xi0 - xi1 + xi2)\<bar> \<le> 169 / 2 ^ 49"
    by (rule corner64_close [OF c8m fm_xi0 fp_xi1 fm_xi2 g_pmp])
  have e4: "\<bar>mul64 (mul64 (mul64 (mul64 (- 0.125) (sub64 1 xi0)) (sub64 1 xi1)) (add64 1 xi2)) (sub64 (add64 (add64 2 xi0) xi1) xi2) -
      - 0.125 * (1 - xi0) * (1 - xi1) * (1 + xi2) * (2 + xi0 + xi1 - xi2)\<bar> \<le> 169 / 2 ^ 49"
    by (rule corner64_close [OF c8m fm_xi0 fm_xi1 fp_xi2 g_ppm])
  have e5: "\<bar>mul64 (mul64 (mul64 (mul64 (- 0.125) (add64 1 xi0)) (sub64 1 xi1)) (add64 1 xi2)) (sub64 (add64 (sub64 2 xi0) xi1) xi2) -
      - 0.125 * (1 + xi0) * (1 - xi1) * (1 + xi2) * (2 - xi0 + xi1 - xi2)\<bar> \<le> 169 / 2 ^ 49"
    by (rule corner64_close [OF c8m fp_xi0 fm_xi1 fp_xi2 g_mpm])
  have e6: "\<bar>mul64 (mul64 (mul64 (mul64 (- 0.125) (add64 1 xi0)) (add64 1 xi1)) (add64 1 xi2)) (sub64 (sub64 (sub64 2 xi0) xi1) xi2) -
      - 0.125 * (1 + xi0) * (1 + xi1) * (1 + xi2) * (2 - xi0 - xi1 - xi2)\<bar> \<le> 169 / 2 ^ 49"
    by (rule corner64_close [OF c8m fp_xi0 fp_xi1 fp_xi2 g_mmm])
  have e7: "\<bar>mul64 (mul64 (mul64 (mul64 (- 0.125) (sub64 1 xi0)) (add64 1 xi1)) (add64 1 xi2)) (sub64 (sub64 (add64 2 xi0) xi1) xi2) -
      - 0.125 * (1 - xi0) * (1 + xi1) * (1 + xi2) * (2 + xi0 - xi1 - xi2)\<bar> \<le> 169 / 2 ^ 49"
    by (rule corner64_close [OF c8m fm_xi0 fp_xi1 fp_xi2 g_pmm])
  have e8: "\<bar>mul64 (mul64 (mul64 0.25 (sub64 1 (mul64 xi0 xi0))) (sub64 1 xi1)) (sub64 1 xi2) -
      0.25 * (1 - xi0 * xi0) * (1 - xi1) * (1 - xi2)\<bar> \<le> 169 / 2 ^ 49"
    by (rule order_trans [OF product64_close(1) [OF c4 sq_xi0 fm_xi1 fm_xi2]]) simp
  have e9: "\<bar>mul64 (mul64 (mul64 0.25 (sub64 1 (mul64 xi1 xi1))) (sub64 1 xi0)) (sub64 1 xi2) -
      0.25 * (1 - xi1 * xi1) * (1 - xi0) * (1 - xi2)\<bar> \<le> 169 / 2 ^ 49"
    by (rule order_trans [OF product64_close(1) [OF c4 sq_xi1 fm_xi0 fm_xi2]]) simp
  have e10: "\<bar>mul64 (mul64 (mul64 0.25 (sub64 1 (mul64 xi2 xi2))) (sub64 1 xi0)) (sub64 1 xi1) -
      0.25 * (1 - xi2 * xi2) * (1 - xi0) * (1 - xi1)\<bar> \<le> 169 / 2 ^ 49"
    by (rule order_trans [OF product64_close(1) [OF c4 sq_xi2 fm_xi0 fm_xi1]]) simp
  have e11: "\<bar>mul64 (mul64 (mul64 0.25 (sub64 1 (mul64 xi1 xi1))) (add64 1 xi0)) (sub64 1 xi2) -
      0.25 * (1 - xi1 * xi1) * (1 + xi0) * (1 - xi2)\<bar> \<le> 169 / 2 ^ 49"
    by (rule order_trans [OF product64_close(1) [OF c4 sq_xi1 fp_xi0 fm_xi2]]) simp
  have e12: "\<bar>mul64 (mul64 (mul64 0.25 (sub64 1 (mul64 xi2 xi2))) (add64 1 xi0)) (sub64 1 xi1) -
      0.25 * (1 - xi2 * xi2) * (1 + xi0) * (1 - xi1)\<bar> \<le> 169 / 2 ^ 49"
    by (rule order_trans [OF product64_close(1) [OF c4 sq_xi2 fp_xi0 fm_xi1]]) simp
  have e13: "\<bar>mul64 (mul64 (mul64 0.25 (sub64 1 (mul64 xi0 xi0))) (add64 1 xi1)) (sub64 1 xi2) -
      0.25 * (1 - xi0 * xi0) * (1 + xi1) * (1 - xi2)\<bar> \<le> 169 / 2 ^ 49"
    by (rule order_trans [OF product64_close(1) [OF c4 sq_xi0 fp_xi1 fm_xi2]]) simp
  have e14: "\<bar>mul64 (mul64 (mul64 0.25 (sub64 1 (mul64 xi2 xi2))) (add64 1 xi0)) (add64 1 xi1) -
      0.25 * (1 - xi2 * xi2) * (1 + xi0) * (1 + xi1)\<bar> \<le> 169 / 2 ^ 49"
    by (rule order_trans [OF product64_close(1) [OF c4 sq_xi2 fp_xi0 fp_xi1]]) simp
  have e15: "\<bar>mul64 (mul64 (mul64 0.25 (sub64 1 (mul64 xi2 xi2))) (sub64 1 xi0)) (add64 1 xi1) -
      0.25 * (1 - xi2 * xi2) * (1 - xi0) * (1 + xi1)\<bar> \<le> 169 / 2 ^ 49"
    by (rule order_trans [OF product64_close(1) [OF c4 sq_xi2 fm_xi0 fp_xi1]]) simp
  have e16: "\<bar>mul64 (mul64 (mul64 0.25 (sub64 1 (mul64 xi0 xi0))) (sub64 1 xi1)) (add64 1 xi2) -
      0.25 * (1 - xi0 * xi0) * (1 - xi1) * (1 + xi2)\<bar> \<le> 169 / 2 ^ 49"
    by (rule order_trans [OF product64_close(1) [OF c4 sq_xi0 fm_xi1 fp_xi2]]) simp
  have e17: "\<bar>mul64 (mul64 (mul64 0.25 (sub64 1 (mul64 xi1 xi1))) (sub64 1 xi0)) (add64 1 xi2) -
      0.25 * (1 - xi1 * xi1) * (1 - xi0) * (1 + xi2)\<bar> \<le> 169 / 2 ^ 49"
    by (rule order_trans [OF product64_close(1) [OF c4 sq_xi1 fm_xi0 fp_xi2]]) simp
  have e18: "\<bar>mul64 (mul64 (mul64 0.25 (sub64 1 (mul64 xi1 xi1))) (add64 1 xi0)) (add64 1 xi2) -
      0.25 * (1 - xi1 * xi1) * (1 + xi0) * (1 + xi2)\<bar> \<le> 169 / 2 ^ 49"
    by (rule order_trans [OF product64_close(1) [OF c4 sq_xi1 fp_xi0 fp_xi2]]) simp
  have e19: "\<bar>mul64 (mul64 (mul64 0.25 (sub64 1 (mul64 xi0 xi0))) (add64 1 xi1)) (add64 1 xi2) -
      0.25 * (1 - xi0 * xi0) * (1 + xi1) * (1 + xi2)\<bar> \<le> 169 / 2 ^ 49"
    by (rule order_trans [OF product64_close(1) [OF c4 sq_xi0 fp_xi1 fp_xi2]]) simp
  show ?thesis
    by (simp only: shapefn20_binary64.simps shapefn20.simps list_all2_Cons list_all2_Nil
        simp_thms e0 e1 e2 e3 e4 e5 e6 e7 e8 e9 e10 e11 e12 e13 e14 e15 e16 e17 e18 e19)
qed

section \<open>Partition of unity and range of the shape functions\<close>

lemma sum_shapefn8: "sum_list (shapefn8 xi ps F) = 1"
  by (cases xi) (simp add: field_simps)

lemma sum_shapefn20: "sum_list (shapefn20 xi ps F) = 1"
  by (cases xi) (simp add: field_simps power2_eq_square)

text \<open>In exact arithmetic the entries sum to 1 at every local coordinate.\<close>

lemma shapefn_exact_sum:
  "sum_list (shapefn k xi particle_size deformation_gradient) = 1"
  by (cases k) (simp_all add: sum_shapefn8 sum_shapefn20)

text \<open>In binary64 the sum of the entries is within \<open>2^-37\<close> of 1.\<close>

lemma shapefn_binary64_sum_close:
  assumes "\<bar>xi0\<bar> \<le> 1" and "\<bar>xi1\<bar> \<le> 1" and "\<bar>xi2\<bar> \<le> 1"
  shows "\<bar>sum_list (shapefn_binary64 k (xi0, xi1, xi2) ps F) - 1\<bar> \<le> 1 / 2 ^ 37"
proof (cases k)
  case Hex8
  have "\<bar>sum_list (shapefn8_binary64 (xi0, xi1, xi2) ps F) -
      sum_list (shapefn8 (xi0, xi1, xi2) ps F)\<bar>
    \<le> real (length (shapefn8_binary64 (xi0, xi1, xi2) ps F)) * (27 / 2 ^ 49)"
    by (rule sum_list_close [OF shapefn8_binary64_close [OF assms]])
  also have "\<dots> \<le> 1 / 2 ^ 37"
    by simp
  finally show ?thesis
    using Hex8 sum_shapefn8 [of "(xi0, xi1, xi2)" ps F] by simp
next
  case Hex20
  have "\<bar>sum_list (shapefn20_binary64 (xi0, xi1, xi2) ps F) -
      sum_list (shapefn20 (xi0, xi1, xi2) ps F)\<bar>
    \<le> real (length (shapefn20_binary64 (xi0, xi1, xi2) ps F)) * (169 / 2 ^ 49)"
    by (rule sum_list_close [OF shapefn20_binary64_close [OF assms]])
  also have "\<dots> \<le> 1 / 2 ^ 37"
    by simp
  finally show ?thesis
    using Hex20 sum_shapefn20 [of "(xi0, xi1, xi2)" ps F] by simp
qed

text \<open>The 8-node entries at \<open>xi = (3/2^28, 3/2^28, 0)\<close>, whose components are binary64
  values: their sum is \<open>1 + 2^-55\<close>.\<close>

lemma shapefn8_binary64_sum_at_example:
  "sum_list (shapefn8_binary64 (3 / 2 ^ 28, 3 / 2 ^ 28, 0) ps F) = 1 + 1 / 2 ^ 55"
  by (simp add: binary64_eval)

lemma example_is_binary64: "round64 (3 / 2 ^ 28) = 3 / 2 ^ 28"
  by (simp add: binary64_eval)

text \<open>The 20-node entries at the same coordinate sum to \<open>1 - 5/2^55\<close>.\<close>

lemma shapefn20_binary64_sum_at_example:
  "sum_list (shapefn20_binary64 (3 / 2 ^ 28, 3 / 2 ^ 28, 0) ps F) = 1 - 5 / 2 ^ 55"
  by (simp add: binary64_eval)

text \<open>The 8-node entries at the binary64 value nearest to 0.1 in each component sum to
  \<open>1 + 13/2^56\<close>.\<close>

lemma tenth_binary64: "round64 (1 / 10) = 3602879701896397 / 2 ^ 55"
  by (simp add: binary64_eval)

lemma shapefn8_binary64_sum_at_tenth:
  "sum_list (shapefn8_binary64 (3602879701896397 / 2 ^ 55, 3602879701896397 / 2 ^ 55,
      3602879701896397 / 2 ^ 55) ps F) = 1 + 13 / 2 ^ 56"
  by (simp add: binary64_eval)

text \<open>
  Claim C5 as stated fails in binary64. Input: \<open>xi = (3/2^28, 3/2^28, 0)\<close>, inside
  \<open>[-1, 1]^3\<close>. The entries that \<open>shapefn\<close> returns sum to \<open>1 + 2^-55\<close> for the 8-node
  element and to \<open>1 - 5/2^55\<close> for the 20-node element, not to 1.
\<close>

theorem shapefn_binary64_sum_is_not_one:
  "\<bar>coeff3 (3 / 2 ^ 28, 3 / 2 ^ 28, 0) 0\<bar> \<le> 1 \<and> \<bar>coeff3 (3 / 2 ^ 28, 3 / 2 ^ 28, 0) 1\<bar> \<le> 1 \<and>
   \<bar>coeff3 (3 / 2 ^ 28, 3 / 2 ^ 28, 0) 2\<bar> \<le> 1 \<and>
   sum_list (shapefn_binary64 Hex8 (3 / 2 ^ 28, 3 / 2 ^ 28, 0) zeros zero3) = 1 + 1 / 2 ^ 55 \<and>
   sum_list (shapefn_binary64 Hex8 (3 / 2 ^ 28, 3 / 2 ^ 28, 0) zeros zero3) \<noteq> 1 \<and>
   sum_list (shapefn_binary64 Hex20 (3 / 2 ^ 28, 3 / 2 ^ 28, 0) zeros zero3) = 1 - 5 / 2 ^ 55 \<and>
   sum_list (shapefn_binary64 Hex20 (3 / 2 ^ 28, 3 / 2 ^ 28, 0) zeros zero3) \<noteq> 1"
  using shapefn8_binary64_sum_at_example [of zeros zero3]
    shapefn20_binary64_sum_at_example [of zeros zero3] by simp

text \<open>
  Claim C5, amended. For the 8-node and the 20-node hexahedron element, at every local
  coordinate \<open>xi\<close> with each component in \<open>[-1, 1]\<close>, and any particle size and
  deformation gradient, the entries of \<open>shapefn\<close> sum to 1 within \<open>1e-10\<close>: the
  polynomials sum to exactly 1, and the binary64 values returned differ from them by
  rounding only.
\<close>

theorem shapefn_partition_of_unity_rounded:
  assumes "\<bar>coeff3 xi 0\<bar> \<le> 1" and "\<bar>coeff3 xi 1\<bar> \<le> 1" and "\<bar>coeff3 xi 2\<bar> \<le> 1"
  shows "\<bar>sum_list (shapefn_binary64 k xi particle_size deformation_gradient) - 1\<bar>
           \<le> 1 / 10 ^ 10 \<and>
         sum_list (shapefn k xi particle_size deformation_gradient) = 1"
proof (cases xi)
  case (fields xi0 xi1 xi2)
  then have b: "\<bar>xi0\<bar> \<le> 1" "\<bar>xi1\<bar> \<le> 1" "\<bar>xi2\<bar> \<le> 1"
    using assms by simp_all
  have "\<bar>sum_list (shapefn_binary64 k (xi0, xi1, xi2) particle_size deformation_gradient) - 1\<bar>
      \<le> 1 / 2 ^ 37"
    by (rule shapefn_binary64_sum_close [OF b])
  moreover have "(1 :: real) / 2 ^ 37 \<le> 1 / 10 ^ 10"
    by simp
  ultimately show ?thesis
    using fields shapefn_exact_sum [of k xi particle_size deformation_gradient] by simp
qed

theorem shapefn_partition_of_unity_rounded_witness:
  "\<bar>coeff3 (3 / 2 ^ 28, 3 / 2 ^ 28, 0) 0\<bar> \<le> 1 \<and> \<bar>coeff3 (3 / 2 ^ 28, 3 / 2 ^ 28, 0) 1\<bar> \<le> 1 \<and>
   \<bar>coeff3 (3 / 2 ^ 28, 3 / 2 ^ 28, 0) 2\<bar> \<le> 1 \<and>
   \<bar>sum_list (shapefn_binary64 Hex8 (3 / 2 ^ 28, 3 / 2 ^ 28, 0) zeros zero3) - 1\<bar>
     \<le> 1 / 10 ^ 10 \<and>
   \<bar>sum_list (shapefn_binary64 Hex20 (3 / 2 ^ 28, 3 / 2 ^ 28, 0) zeros zero3) - 1\<bar>
     \<le> 1 / 10 ^ 10 \<and>
   sum_list (shapefn Hex20 (3 / 2 ^ 28, 3 / 2 ^ 28, 0) zeros zero3) = 1"
proof -
  have h: "\<bar>coeff3 (3 / 2 ^ 28, 3 / 2 ^ 28, 0) 0\<bar> \<le> 1"
    "\<bar>coeff3 (3 / 2 ^ 28, 3 / 2 ^ 28, 0) 1\<bar> \<le> 1"
    "\<bar>coeff3 (3 / 2 ^ 28, 3 / 2 ^ 28, 0) 2\<bar> \<le> 1"
    by simp_all
  show ?thesis
    using h shapefn_partition_of_unity_rounded [OF h, of Hex8 zeros zero3]
      shapefn_partition_of_unity_rounded [OF h, of Hex20 zeros zero3]
    by blast
qed







section \<open>Gradients against the derivatives of the shape functions\<close>

text \<open>The partial derivative of entry \<open>i\<close> of the shape functions in \<open>xi(j)\<close> is the
  derivative of the function of \<open>t\<close> that replaces component \<open>j\<close> of \<open>xi\<close> by \<open>t\<close>.
  For the 8-node element every entry of \<open>grad_shapefn\<close> is that derivative.\<close>

lemma grad_shapefn8_is_derivative:
  assumes "i < 8" and "j < 3"
  shows "((\<lambda>t. shapefn8 (with_coeff3 xi j t) ps F ! i) has_real_derivative
            grad_shapefn8 xi ps F ! i ! j) (at (coeff3 xi j))"
  using assms
  apply (cases xi)
  apply (simp add: less_Suc_eq numeral_3_eq_3 eval_nat_numeral)
  apply (elim disjE; simp; (auto intro!: derivative_eq_intros simp: field_simps)?)
  done

text \<open>For the 20-node element the same holds for every entry but \<open>(3, 1)\<close>, \<open>(7, 1)\<close>,
  \<open>(3, 2)\<close> and \<open>(7, 2)\<close>.\<close>

lemma grad_shapefn20_is_derivative_elsewhere:
  assumes "i < 20" and "j < 3" and "(i, j) \<notin> {(3, 1), (7, 1), (3, 2), (7, 2)}"
  shows "((\<lambda>t. shapefn20 (with_coeff3 xi j t) ps F ! i) has_real_derivative
            grad_shapefn20 xi ps F ! i ! j) (at (coeff3 xi j))"
  using assms
  apply (cases xi)
  apply (simp add: less_Suc_eq numeral_3_eq_3 eval_nat_numeral)
  apply (elim disjE; simp; (auto intro!: derivative_eq_intros simp: field_simps)?)
  done

text \<open>The four entries left out carry the factor \<open>1 - xi(1)\<close> where the derivative has
  \<open>1 - xi(0)\<close>: what the derivative is there.\<close>

lemma shapefn20_derivative_3_1:
  "((\<lambda>t. shapefn20 (x, t, z) ps F ! 3) has_real_derivative
      - 0.125 * (x - 2 * y + z + 1) * (1 - x) * (1 - z)) (at y)"
  by (auto intro!: derivative_eq_intros simp: eval_nat_numeral field_simps)

lemma shapefn20_derivative_7_1:
  "((\<lambda>t. shapefn20 (x, t, z) ps F ! 7) has_real_derivative
      - 0.125 * (x - 2 * y - z + 1) * (1 - x) * (1 + z)) (at y)"
  by (auto intro!: derivative_eq_intros simp: eval_nat_numeral field_simps)

lemma shapefn20_derivative_3_2:
  "((\<lambda>t. shapefn20 (x, y, t) ps F ! 3) has_real_derivative
      0.125 * (x - y + 2 * z + 1) * (1 - x) * (1 + y)) (at z)"
  by (auto intro!: derivative_eq_intros simp: eval_nat_numeral field_simps)

lemma shapefn20_derivative_7_2:
  "((\<lambda>t. shapefn20 (x, y, t) ps F ! 7) has_real_derivative
      - 0.125 * (x - y - 2 * z + 1) * (1 - x) * (1 + y)) (at z)"
  by (auto intro!: derivative_eq_intros simp: eval_nat_numeral field_simps)

text \<open>
  Claim C2, at the 20-node element, entry \<open>(3, 1)\<close>, \<open>xi = (1/2, 0, 0)\<close>. The claim
  wants \<open>grad_shapefn(3, 1)\<close> to be the partial derivative of \<open>shapefn(3)\<close> in \<open>xi(1)\<close>.
  There \<open>grad_shapefn\<close> returns \<open>-3/16\<close>, the derivative is \<open>-3/32\<close>, and so the entry
  is not the derivative.
\<close>

theorem grad_shapefn_hex20_entry_3_1_off:
  "grad_shapefn Hex20 (1 / 2, 0, 0) zeros zero3 ! 3 ! 1 = - 3 / 16 \<and>
   ((\<lambda>t. shapefn Hex20 (with_coeff3 (1 / 2, 0, 0) 1 t) zeros zero3 ! 3) has_real_derivative
      - 3 / 32) (at (coeff3 (1 / 2, 0, 0) 1)) \<and>
   \<not> ((\<lambda>t. shapefn Hex20 (with_coeff3 (1 / 2, 0, 0) 1 t) zeros zero3 ! 3) has_real_derivative
      grad_shapefn Hex20 (1 / 2, 0, 0) zeros zero3 ! 3 ! 1) (at (coeff3 (1 / 2, 0, 0) 1))"
proof -
  have v: "grad_shapefn Hex20 (1 / 2, 0, 0) zeros zero3 ! 3 ! 1 = - 3 / 16"
    by (simp add: eval_nat_numeral)
  have d: "((\<lambda>t. shapefn Hex20 (with_coeff3 (1 / 2, 0, 0) 1 t) zeros zero3 ! 3)
      has_real_derivative - 3 / 32) (at (coeff3 (1 / 2, 0, 0) 1))"
    using shapefn20_derivative_3_1 [of "1 / 2" 0 zeros zero3 0] by simp
  have n: False
    if a: "((\<lambda>t. shapefn Hex20 (with_coeff3 (1 / 2, 0, 0) 1 t) zeros zero3 ! 3)
      has_real_derivative grad_shapefn Hex20 (1 / 2, 0, 0) zeros zero3 ! 3 ! 1)
      (at (coeff3 (1 / 2, 0, 0) 1))"
  proof -
    have "grad_shapefn Hex20 (1 / 2, 0, 0) zeros zero3 ! 3 ! 1 = (- 3 / 32 :: real)"
      using DERIV_unique [OF a d] .
    then show False unfolding v by simp
  qed
  show ?thesis using v d n by blast
qed


text \<open>A consequence: on the unit cell itself, whose map from local to real coordinates is
  the identity, the Jacobian of the 20-node element is not the identity matrix.\<close>

lemma jacobian_hex20_unit_cell:
  "jacobian Hex20 (1 / 2, 1 / 3, 0) (unit_cell_coordinates Hex20) zeros zero3 =
     ([], ((1, 0, 0), (5 / 144, 139 / 144, 0), (0, 0, 101 / 108)))"
  by (simp add: jacobian_def unit_cell_coordinates20_def rows_def cols_def
      transpose_times_raw_def col_def dot_def)

lemma jacobian_hex8_unit_cell:
  "jacobian Hex8 (1 / 2, 1 / 3, 0) (unit_cell_coordinates Hex8) zeros zero3 =
     ([], ((1, 0, 0), (0, 1, 0), (0, 0, 1)))"
  by (simp add: jacobian_def unit_cell_coordinates8_def rows_def cols_def
      transpose_times_raw_def col_def dot_def)

section \<open>Physical gradients\<close>

text \<open>What \<open>inverse3\<close> returns is an inverse: multiplied from the left onto the matrix
  it gives the identity.\<close>

lemma inverse3_left_inverse:
  assumes "inverse3 ((a, b, c), (d, e, f), (g, h, i)) = Inr ((p, q, r), (s, t, u), (v, w, x))"
  shows "p * a + q * d + r * g = 1 \<and> p * b + q * e + r * h = 0 \<and> p * c + q * f + r * i = 0 \<and>
         s * a + t * d + u * g = 0 \<and> s * b + t * e + u * h = 1 \<and> s * c + t * f + u * i = 0 \<and>
         v * a + w * d + x * g = 0 \<and> v * b + w * e + x * h = 0 \<and> v * c + w * f + x * i = 1"
proof -
  let ?dt = "a * (e * i - f * h) - b * (d * i - f * g) + c * (d * h - e * g)"
  have nz: "?dt \<noteq> 0"
    using assms by (auto simp: Let_def split: if_splits)
  have eqs: "p = (e * i - f * h) / ?dt" "q = (c * h - b * i) / ?dt" "r = (b * f - c * e) / ?dt"
    "s = (f * g - d * i) / ?dt" "t = (a * i - c * g) / ?dt" "u = (c * d - a * f) / ?dt"
    "v = (d * h - e * g) / ?dt" "w = (b * g - a * h) / ?dt" "x = (a * e - b * d) / ?dt"
    using assms by (auto simp: Let_def split: if_splits)
  have k: "\<And>n m::real. n = m * ?dt \<Longrightarrow> n / ?dt = m"
    using nz by simp
  show ?thesis
    unfolding eqs
    apply (simp only: add_divide_distrib [symmetric] times_divide_eq_left)
    apply (intro conjI k)
            apply (simp_all add: algebra_simps)
    done
qed

lemma inverse3_of_regular:
  assumes "det3 m \<noteq> 0"
  shows "\<exists>jinv. inverse3 m = Inr jinv"
proof -
  obtain a b c d e f g h i where m: "m = ((a, b, c), (d, e, f), (g, h, i))"
    by (metis prod_cases3)
  show ?thesis
    using assms unfolding m by (simp add: Let_def)
qed

lemma initialise_gives_base_bspline_element:
  "initialise_bspline_connectivity_properties el doubled_unit_cell regular_node_types =
     Inr base_bspline_element"
  by (simp add: initialise_bspline_connectivity_properties_def doubled_unit_cell_def
      regular_node_types_def rows_def cols_def base_bspline_element_def)

text \<open>The standard elements, 8 and 20 nodes: for a nodal-coordinate matrix with a row for
  each node and three columns, whose Jacobian has a determinant other than zero, \<open>dn_dx\<close>
  is \<open>grad_shapefn\<close> times the transpose of the inverse of \<open>jacobian\<close>.\<close>

lemma dn_dx_hexahedron_chain_rule:
  assumes "rows (grad_shapefn k xi particle_size deformation_gradient) = rows nc"
    and "cols nc = 3"
    and "det3 (snd (jacobian k xi nc particle_size deformation_gradient)) \<noteq> 0"
  shows "\<exists>jinv. inverse3 (snd (jacobian k xi nc particle_size deformation_gradient)) = Inr jinv \<and>
           dn_dx k xi nc particle_size deformation_gradient =
             Inr (times3 (grad_shapefn k xi particle_size deformation_gradient)
                    (transpose3 jinv))"
proof -
  let ?g = "grad_shapefn k xi particle_size deformation_gradient"
  let ?J = "transpose_times_raw ?g nc"
  have j: "snd (jacobian k xi nc particle_size deformation_gradient) = ?J"
    using assms(1,2) by (simp add: jacobian_def Let_def)
  have t: "transpose_times ?g nc = Inr ?J"
    using assms(1,2) by (simp add: transpose_times_def cols_grad_shapefn)
  have "det3 ?J \<noteq> 0"
    using assms(3) j by simp
  then obtain jinv where inv: "inverse3 ?J = Inr jinv"
    using inverse3_of_regular by blast
  have "dn_dx k xi nc particle_size deformation_gradient = Inr (times3 ?g (transpose3 jinv))"
    using inv t by (simp add: dn_dx_def Let_def)
  then show ?thesis
    using inv j by simp
qed

text \<open>The B-spline element's \<open>dn_dx\<close> returns its \<open>grad_shapefn\<close>, whatever the nodal
  coordinates passed in.\<close>

lemma dn_dx_bspline_is_grad_shapefn:
  "dn_dx_bspline knot index0 tpolynomial el xi nc particle_size deformation_gradient =
     grad_shapefn_bspline knot index0 tpolynomial el xi particle_size deformation_gradient"
  by (simp add: dn_dx_bspline_def)

text \<open>
  Claim C3, at the B-spline element that holds the 8 nodes of the cell \<open>[-2, 2]^3\<close>,
  \<open>xi = (0, 0, 0)\<close>, with that cell's coordinates. The claim wants \<open>dn_dx\<close> to be
  \<open>grad_shapefn\<close> times the transpose of the inverse of \<open>jacobian\<close>. There
  \<open>grad_shapefn\<close> is the linear element's, with first row \<open>(-1/8, -1/8, -1/8)\<close>, the
  Jacobian is twice the identity, and \<open>dn_dx\<close> returns the local gradients unchanged. The
  element's own \<open>bmatrix\<close> and the linear element's \<open>dn_dx\<close> divide by the Jacobian at
  the same input: first row \<open>(-1/16, -1/16, -1/16)\<close>.
\<close>

theorem dn_dx_bspline_returns_local_gradients:
  "grad_shapefn_bspline uniform_knot 0 2 base_bspline_element (0, 0, 0) zeros zero3
     = Inr (grad_shapefn8 (0, 0, 0) zeros zero3) \<and>
   jacobian_bspline uniform_knot 0 2 base_bspline_element (0, 0, 0) doubled_unit_cell zeros zero3
     = Inr ([], ((2, 0, 0), (0, 2, 0), (0, 0, 2))) \<and>
   inverse3 ((2, 0, 0), (0, 2, 0), (0, 0, 2))
     = Inr ((1 / 2, 0, 0), (0, 1 / 2, 0), (0, 0, 1 / 2)) \<and>
   dn_dx_bspline uniform_knot 0 2 base_bspline_element (0, 0, 0) doubled_unit_cell zeros zero3
     = Inr (grad_shapefn8 (0, 0, 0) zeros zero3) \<and>
   grad_shapefn8 (0, 0, 0) zeros zero3 ! 0 = [- 1 / 8, - 1 / 8, - 1 / 8] \<and>
   times3 (grad_shapefn8 (0, 0, 0) zeros zero3)
       (transpose3 ((1 / 2, 0, 0), (0, 1 / 2, 0), (0, 0, 1 / 2))) ! 0
     = [- 1 / 16, - 1 / 16, - 1 / 16] \<and>
   dn_dx_bspline uniform_knot 0 2 base_bspline_element (0, 0, 0) doubled_unit_cell zeros zero3
     \<noteq> Inr (times3 (grad_shapefn8 (0, 0, 0) zeros zero3)
              (transpose3 ((1 / 2, 0, 0), (0, 1 / 2, 0), (0, 0, 1 / 2)))) \<and>
   dn_dx Hex8 (0, 0, 0) doubled_unit_cell zeros zero3
     = Inr (times3 (grad_shapefn8 (0, 0, 0) zeros zero3)
              (transpose3 ((1 / 2, 0, 0), (0, 1 / 2, 0), (0, 0, 1 / 2)))) \<and>
   bmatrix_bspline uniform_knot 0 2 base_bspline_element (0, 0, 0) doubled_unit_cell zeros zero3
     = Inr ([], map bblock
                  (times3 (grad_shapefn8 (0, 0, 0) zeros zero3)
                     (transpose3 ((1 / 2, 0, 0), (0, 1 / 2, 0), (0, 0, 1 / 2)))))"
  by (simp add: grad_shapefn_bspline_def jacobian_bspline_def dn_dx_bspline_def
      bmatrix_bspline_def incorrect_dimension_def dn_dx_def transpose_times_def
      base_bspline_element_def doubled_unit_cell_def rows_def cols_def zeros_def zero3_def
      transpose_times_raw_def col_def dot_def)

section \<open>Mismatched sizes\<close>

text \<open>\<open>jacobian\<close> and \<open>bmatrix\<close> on a nodal-coordinate matrix whose row count is not
  the gradients' or whose column count is not 3: one line logged, the zero matrix and the
  empty list returned.\<close>

lemma jacobian_mismatch:
  assumes "rows (grad_shapefn k xi ps F) \<noteq> rows nc \<or> 3 \<noteq> cols nc"
  shows "jacobian k xi nc ps F =
    ([Runtime_error ''Jacobian calculation: Incorrect dimension of xi and nodal_coordinates''],
     zero3)"
  using assms by (simp add: jacobian_def Let_def)

lemma bmatrix_mismatch:
  assumes "rows (grad_shapefn k xi ps F) \<noteq> rows nc \<or> 3 \<noteq> cols nc"
  shows "bmatrix k xi nc ps F =
    ([Runtime_error
        ''BMatrix - Jacobian calculation: Incorrect dimension of xi and nodal_coordinates''],
     Inr [])"
  using assms by (simp add: bmatrix_def Let_def)

text \<open>\<open>laplace_matrix\<close> logs the same way, and then runs its loop whatever was logged.\<close>

lemma laplace_matrix_mismatch_logged:
  assumes "nfunctions k \<noteq> rows nc \<or> 3 \<noteq> cols nc" and "xi_s \<noteq> []"
  shows "fst (laplace_matrix k xi_s nc) =
    [Runtime_error ''Jacobian calculation: Incorrect dimension of xi & nodes'']"
  using assms by (cases xi_s) (auto simp: laplace_matrix_def laplace_check_def)

lemma laplace_matrix_mismatch_result:
  assumes "nfunctions k \<noteq> rows nc \<or> 3 \<noteq> cols nc"
  shows "snd (laplace_matrix k (xi # xi_s) nc) = Inl Size_mismatch"
proof -
  have stay: "fold (laplace_step k nc) ys (Inl e) = Inl e" for ys e
    by (induction ys) (simp_all add: laplace_step_def)
  have "transpose_times (grad_shapefn k xi zeros zero3) nc = Inl Size_mismatch"
    using assms by (auto simp: transpose_times_def rows_grad_shapefn)
  then have "laplace_step k nc xi (Inr (zero_matrixXd (nfunctions k) (nfunctions k)))
      = Inl Size_mismatch"
    by (simp add: laplace_step_def)
  then show ?thesis
    by (simp add: laplace_matrix_def stay)
qed

text \<open>
  Claim C4, at \<open>laplace_matrix\<close> of the 8-node element, one local coordinate
  \<open>(0, 0, 0)\<close>, a nodal-coordinate matrix of 9 rows and 3 columns. The claim wants the
  mismatch logged and a zero matrix returned with nothing computed from the operands. The
  mismatch is logged; no zero matrix is returned: the product of the transposed 8 by 3
  gradients with the 9 by 3 coordinates is formed, and it is there that the sizes clash.
\<close>

theorem laplace_matrix_runs_on_after_mismatch:
  "nfunctions Hex8 \<noteq> rows nine_row_coordinates \<and>
   laplace_matrix Hex8 [(0, 0, 0)] nine_row_coordinates =
     ([Runtime_error ''Jacobian calculation: Incorrect dimension of xi & nodes''],
      Inl Size_mismatch) \<and>
   snd (laplace_matrix Hex8 [(0, 0, 0)] nine_row_coordinates) \<noteq> Inr (zero_matrixXd 8 8)"
  by (simp add: laplace_matrix_def laplace_check_def laplace_step_def transpose_times_def
      nine_row_coordinates_def unit_cell_coordinates8_def rows_def zeros_def)

section \<open>Volume of the unit cell\<close>

text \<open>In exact arithmetic the formula gives 8 on the unit cell of either element.\<close>

lemma compute_volume_exact_unit_cell:
  "compute_volume (unit_cell_coordinates Hex8) = Inr 8"
  "compute_volume (unit_cell_coordinates Hex20) = Inr 8"
  by (simp_all add: compute_volume_def unit_cell_coordinates8_def unit_cell_coordinates20_def
      rows_def cols_def row3_def)

text \<open>In binary64 the four \<open>dot\<close> values are 48, 16, 16 and 16, \<open>1.0 / 12\<close> is rounded,
  and the sum of the four products comes out one unit in the last place below 8.\<close>

lemma twelfth_binary64: "div64 1 12 = 6004799503160661 / 2 ^ 56"
  by (simp add: binary64_eval)

lemma compute_volume_binary64_unit_cell8:
  "compute_volume_binary64 (unit_cell_coordinates Hex8) = Inr (8 - 1 / 2 ^ 50)"
  by (simp add: compute_volume_binary64_def unit_cell_coordinates8_def rows_def cols_def
      row3_def binary64_eval)

lemma compute_volume_binary64_unit_cell20:
  "compute_volume_binary64 (unit_cell_coordinates Hex20) = Inr (8 - 1 / 2 ^ 50)"
  by (simp add: compute_volume_binary64_def unit_cell_coordinates20_def rows_def cols_def
      row3_def binary64_eval)

text \<open>
  Claim C6 as stated fails in binary64. Input: the unit-cell corner coordinates of the
  8-node element. \<open>compute_volume\<close> returns \<open>8 - 2^-50\<close>, which is not 8.
\<close>

theorem compute_volume_binary64_is_not_eight:
  "compute_volume_binary64 (unit_cell_coordinates Hex8) = Inr (8 - 1 / 2 ^ 50) \<and>
   compute_volume_binary64 (unit_cell_coordinates Hex8) \<noteq> Inr 8"
  using compute_volume_binary64_unit_cell8 by simp

text \<open>
  Claim C6, amended. \<open>compute_volume\<close> of the matrix of unit-cell corner coordinates, in
  the node order of the element (\<open>unit_cell_coordinates\<close> of the 8-node and of the
  20-node element), returns \<open>8 - 2^-50\<close> (7.999999999999999), one unit in the last place
  below 8.0; the exact value of the formula there is 8.
\<close>

theorem compute_volume_unit_cell_rounded:
  "compute_volume_binary64 (unit_cell_coordinates Hex8) = Inr (8 - 1 / 2 ^ 50) \<and>
   compute_volume_binary64 (unit_cell_coordinates Hex20) = Inr (8 - 1 / 2 ^ 50) \<and>
   compute_volume (unit_cell_coordinates Hex8) = Inr 8 \<and>
   compute_volume (unit_cell_coordinates Hex20) = Inr 8"
  using compute_volume_binary64_unit_cell8 compute_volume_binary64_unit_cell20
    compute_volume_exact_unit_cell by simp

section \<open>B-spline element and the linear element\<close>

text \<open>The recursion on a uniform quadratic knot vector: the basis function at its centre,
  the order-0 function of the last knot at a point to its left, and the slope of the basis
  function half a spacing to the right.\<close>

lemma kernel_quadratic_centre: "kernel uniform_knot 1 0 0 0 2 0 = Inr (3 / 4)"
  by (simp add: numeral_2_eq_2 knot_coords_def uniform_knot_def epsilon_def Let_def)

lemma kernel_order0_last_knot: "kernel uniform_knot 1 0 0 0 0 3 = Inr 0"
  by (simp add: knot_coords_def uniform_knot_def)

lemma gradient_quadratic_half: "gradient uniform_knot 1 (1 / 2) 0 0 2 0 = Inr (- 1)"
  by (simp add: gradient_def numeral_2_eq_2 knot_coords_def uniform_knot_def epsilon_def Let_def)

text \<open>
  Claim C7. When the connectivity of a B-spline hexahedron element holds exactly 8 nodes,
  its \<open>shapefn\<close> and \<open>grad_shapefn\<close> return, for every local coordinate, particle size
  and deformation gradient, the values of the 8-node linear hexahedron element's
  \<open>shapefn\<close> and \<open>grad_shapefn\<close>.
\<close>

theorem bspline_with_base_nodes_is_linear:
  assumes "nconnectivity el = 8"
  shows "shapefn_bspline knot index0 tpolynomial el xi particle_size deformation_gradient =
           Inr (shapefn Hex8 xi particle_size deformation_gradient) \<and>
         grad_shapefn_bspline knot index0 tpolynomial el xi particle_size deformation_gradient =
           Inr (grad_shapefn Hex8 xi particle_size deformation_gradient)"
  using assms by (simp add: shapefn_bspline_def grad_shapefn_bspline_def)

theorem bspline_with_base_nodes_is_linear_witness:
  "nconnectivity base_bspline_element = 8 \<and>
   shapefn_bspline uniform_knot 0 2 base_bspline_element (1 / 2, 0, - 1) zeros zero3 =
     Inr (shapefn Hex8 (1 / 2, 0, - 1) zeros zero3) \<and>
   grad_shapefn_bspline uniform_knot 0 2 base_bspline_element (1 / 2, 0, - 1) zeros zero3 =
     Inr (grad_shapefn Hex8 (1 / 2, 0, - 1) zeros zero3)"
proof -
  have h: "nconnectivity base_bspline_element = 8"
    by (simp add: base_bspline_element_def)
  show ?thesis
    using h bspline_with_base_nodes_is_linear [OF h, of uniform_knot 0 2 "(1 / 2, 0, - 1)" zeros zero3]
    by simp
qed

text \<open>
  Claim C9. For every B-spline hexahedron element, whatever its polynomial order and its
  installed connectivity, \<open>shapefn_local\<close> at any local coordinate returns the shape
  functions of the 8-node trilinear hexahedron.
\<close>

theorem shapefn_local_bspline_is_trilinear:
  "shapefn_local_bspline tpolynomial el xi particle_size deformation_gradient =
     shapefn Hex8 xi particle_size deformation_gradient"
  by (simp add: shapefn_local_bspline_def)

section \<open>The tables of the persisted particle record\<close>

lemma field_names_complete: "length field_names = NFIELDS"
  by (simp add: field_names_def NFIELDS_def)

lemma field_type_agrees_before_29:
  "take 29 field_type = take 29 spec_record_types"
  by (simp add: field_type_def field_type_initialisers_def spec_record_types_def NFIELDS_def
      eval_nat_numeral)

text \<open>
  Claim C1, at position 29 of the tables. The claim wants one type per field, matching the
  field at every position. \<open>field_names\<close> lists 56 names in the order of the record;
  \<open>field_type\<close> lists 53 types, so the last three elements hold no type, and from
  position 29 on the types run three places ahead of the names: at 29, the field
  \<open>gamma_yz\<close>, a double in the record, the table holds the boolean type.
\<close>

theorem field_type_out_of_step:
  "length field_names = 56 \<and> length spec_record_types = 56 \<and>
   length field_type_initialisers = 53 \<and>
   field_names ! 29 = ''gamma_yz'' \<and> spec_record_types ! 29 = H5T_NATIVE_DOUBLE \<and>
   field_type ! 29 = H5T_NATIVE_HBOOL \<and>
   field_names ! 55 = ''svars_19'' \<and> spec_record_types ! 55 = H5T_NATIVE_DOUBLE \<and>
   field_type ! 55 = Zero_initialised"
  by (simp add: field_names_def NFIELDS_def spec_record_types_def field_type_initialisers_def
      field_type_def nth_append eval_nat_numeral)

end
